theory Spec2Isabelle
  imports Main
begin

section \<open>The FRED series exporter (\<^verbatim>\<open>fetch_fred_data.py\<close>)\<close>

text \<open>
  The script has one function, \<^verbatim>\<open>get_fred_series_and_export_csv\<close>: a loop over a
  dictionary of display names and series ids which, for every entry, requests the
  observations of the series, cleans them with pandas and writes them to a CSV file,
  catching every exception of the iteration.  The embedding below follows the function
  statement by statement.  What lies outside the script is a parameter of the model:
  \<^item> the network, the clock and the file system are the record \<open>env\<close>;
  \<^item> what pandas does with the \<^emph>\<open>contents\<close> of a cell (which strings are dates, which
    are numbers, how a date or a number is printed) is the record \<open>pandas\<close>;
  \<^item> what pandas does with the \<^emph>\<open>shape\<close> of a table (columns in order of first
    appearance, dropping, selecting, assigning and renaming columns, the layout of the
    CSV text) is written out.
\<close>

subsection \<open>Exceptions\<close>

text \<open>
  The three \<^verbatim>\<open>except\<close> clauses tell exceptions apart by two classes only, and every
  exception the loop body can raise derives from \<^verbatim>\<open>Exception\<close>.  An exception is thus
  its membership in \<^verbatim>\<open>requests.exceptions.RequestException\<close> and in \<^verbatim>\<open>ValueError\<close>
  (one exception may be in both) and its message.
\<close>

datatype exn = Exn (is_RequestException: bool) (is_ValueError: bool) (message: string)

definition KeyError :: "string \<Rightarrow> exn" where
  "KeyError k = Exn False False ([CHR 0x27] @ k @ [CHR 0x27])"

subsection \<open>Printed lines\<close>

text \<open>
  Every \<^verbatim>\<open>print\<close> of the function is one constructor of \<open>event\<close>, with the values
  its f-string interpolates: the attempt line (name, id), the lines of the two skips,
  the line on missing values, the success line (row count, file name), the lines of
  the three \<^verbatim>\<open>except\<close> clauses, and the two closing lines.
\<close>

datatype event =
    Attempting string string
  | NoObservations string
  | FoundNA nat string
  | NoValidObservations string
  | Saved nat string
  | RequestError string exn
  | ProcessingError string exn
  | UnexpectedError string exn
  | ProcessCompleted
  | TotalNA nat

subsection \<open>The upstream response\<close>

text \<open>
  An observation is a JSON object with string values, its keys in the order of the
  document: \<^verbatim>\<open>{"realtime_start": .., "realtime_end": .., "date": .., "value": ..}\<close> for
  the real service.  The parsed body is a dictionary of which the function reads
  the key \<^verbatim>\<open>observations\<close> only; it is modelled as a map from keys to lists of
  observations.  A response is what its two methods do.
\<close>

type_synonym observation = "(string \<times> string) list"

type_synonym payload = "string \<rightharpoonup> observation list"

record response =
  raise_for_status :: "exn option"
  json :: "exn + payload"

subsection \<open>The environment\<close>

text \<open>
  \<open>today\<close> is \<^verbatim>\<open>date.today().strftime('%Y-%m-%d')\<close>; \<open>requests_get\<close> is
  \<^verbatim>\<open>requests.get\<close>, a function of the URL; \<open>open_for_write\<close> is the exception, if
  any, with which writing a path fails: when the file is opened (a missing directory
  \<^verbatim>\<open>data\<close>, for one: the function never creates it) or later, while it is written.
  \<open>left_by_failed_write path text\<close> is what such a failure leaves at the path: \<open>None\<close>
  when the file is as it was (it was never opened), the new content when the file was
  opened, which empties it, and written in part.  \<open>stdout_fault\<close> is the exception,
  if any, with which \<^verbatim>\<open>print\<close> fails on a line (text the console cannot encode, a
  closed pipe).
\<close>

record env =
  today :: string
  requests_get :: "string \<Rightarrow> exn + response"
  open_for_write :: "string \<Rightarrow> exn option"
  left_by_failed_write :: "string \<Rightarrow> string \<Rightarrow> string option"
  stdout_fault :: "event \<Rightarrow> exn option"

subsection \<open>pandas: cell contents\<close>

text \<open>
  \<open>'d\<close> is the type of timestamps and \<open>'n\<close> the type of numbers that are not NaN.
  \<^item> \<open>parse_datetime col s\<close>: the timestamp \<^verbatim>\<open>pd.to_datetime\<close> reads from the string
    \<open>s\<close> of the column \<open>col\<close>, or the exception it raises (the format is inferred
    from the column, hence the first argument);
  \<^item> \<open>parse_numeric s\<close>: the number \<^verbatim>\<open>pd.to_numeric(.., errors='coerce')\<close> reads from
    \<open>s\<close>, \<open>None\<close> when the result is NaN;
  \<^item> \<open>format_datetime col d\<close>, \<open>format_numeric col v\<close>: the text \<^verbatim>\<open>to_csv\<close> writes
    for a cell of a column (the dtype and the precision are the column's);
  \<^item> \<open>lineterminator\<close>: \<^verbatim>\<open>os.linesep\<close>, the default of \<^verbatim>\<open>to_csv\<close>.
  Two facts of the Python runtime under pandas are parameters as well:
  \<^item> \<open>quote_line_breaks\<close>: whether \<^verbatim>\<open>csv.writer\<close> quotes a field for a carriage return
    or a line feed that is not in the line terminator (recent versions do);
  \<^item> \<open>unicode_lower\<close>: \<^verbatim>\<open>str.lower\<close> on text with characters beyond ASCII.
\<close>

record ('d, 'n) pandas =
  parse_datetime :: "string option list \<Rightarrow> string \<Rightarrow> exn + 'd"
  parse_numeric :: "string \<Rightarrow> 'n option"
  format_datetime :: "'d option list \<Rightarrow> 'd \<Rightarrow> string"
  format_numeric :: "'n option list \<Rightarrow> 'n \<Rightarrow> string"
  lineterminator :: string
  quote_line_breaks :: bool
  unicode_lower :: "string \<Rightarrow> string"

subsection \<open>pandas: tables\<close>

text \<open>
  A column has one dtype; \<open>None\<close> is the missing value of the dtype (NaN, NaT).
  A frame is its row count (the length of the index) and its named columns in order.
\<close>

datatype ('d, 'n) column =
    Object "string option list"
  | Datetime "'d option list"
  | Numeric "'n option list"

record ('d, 'n) frame =
  nrows :: nat
  cols :: "(string \<times> ('d, 'n) column) list"

definition column_names :: "('d, 'n) frame \<Rightarrow> string list" where
  "column_names df = map fst (cols df)"

text \<open>Keys in order of first appearance: what pandas does for a list of dictionaries.\<close>

definition first_seen :: "'a list \<Rightarrow> 'a list" where
  "first_seen xs = rev (remdups (rev xs))"

text \<open>\<^verbatim>\<open>pd.DataFrame(records)\<close>: one row per record, one object column per key, a
  missing value where a record lacks the key.\<close>

definition DataFrame :: "observation list \<Rightarrow> ('d, 'n) frame" where
  "DataFrame records =
     \<lparr>nrows = length records,
      cols = map (\<lambda>k. (k, Object (map (\<lambda>r. map_of r k) records)))
               (first_seen (concat (map (map fst) records)))\<rparr>"

text \<open>\<^verbatim>\<open>df.drop(columns=labels)\<close> raises KeyError for a label that is no column.\<close>

definition drop_columns :: "string list \<Rightarrow> ('d, 'n) frame \<Rightarrow> exn + ('d, 'n) frame" where
  "drop_columns labels df =
     (case filter (\<lambda>l. l \<notin> set (column_names df)) labels of
        l # _ \<Rightarrow> Inl (KeyError l)
      | [] \<Rightarrow> Inr (df\<lparr>cols := filter (\<lambda>(k, c). k \<notin> set labels) (cols df)\<rparr>))"

text \<open>\<^verbatim>\<open>df[key]\<close> and \<^verbatim>\<open>df[key] = column\<close> (an existing column keeps its place, a
  new one goes last).\<close>

definition getitem :: "('d, 'n) frame \<Rightarrow> string \<Rightarrow> exn + ('d, 'n) column" where
  "getitem df key =
     (case map_of (cols df) key of None \<Rightarrow> Inl (KeyError key) | Some c \<Rightarrow> Inr c)"

definition setitem :: "('d, 'n) frame \<Rightarrow> string \<Rightarrow> ('d, 'n) column \<Rightarrow> ('d, 'n) frame" where
  "setitem df key c =
     (if key \<in> set (column_names df)
      then df\<lparr>cols := map (\<lambda>(k, old). if k = key then (k, c) else (k, old)) (cols df)\<rparr>
      else df\<lparr>cols := cols df @ [(key, c)]\<rparr>)"

text \<open>\<^verbatim>\<open>df.rename(columns={old: new})\<close>, \<^verbatim>\<open>df.empty\<close>.\<close>

definition rename_column :: "string \<Rightarrow> string \<Rightarrow> ('d, 'n) frame \<Rightarrow> ('d, 'n) frame" where
  "rename_column old new df =
     df\<lparr>cols := map (\<lambda>(k, c). (if k = old then new else k, c)) (cols df)\<rparr>"

definition empty_df :: "('d, 'n) frame \<Rightarrow> bool" where
  "empty_df df = (nrows df = 0 \<or> cols df = [])"

text \<open>
  \<^verbatim>\<open>pd.to_datetime\<close> of a column: a missing value becomes NaT, a string is parsed, and
  the first string that does not parse raises.  \<^verbatim>\<open>pd.to_numeric(errors='coerce')\<close>
  never raises on strings: what does not parse becomes NaN.  Both leave a column that
  has their dtype already as it is; the function applies them to object columns only,
  and the remaining combination of dtypes is not modelled (it raises here).
\<close>

fun sequence_exn :: "(exn + 'a) list \<Rightarrow> exn + 'a list" where
  "sequence_exn [] = Inr []"
| "sequence_exn (Inl e # rs) = Inl e"
| "sequence_exn (Inr x # rs) = (case sequence_exn rs of Inl e \<Rightarrow> Inl e | Inr xs \<Rightarrow> Inr (x # xs))"

definition to_datetime_cell ::
  "('d, 'n) pandas \<Rightarrow> string option list \<Rightarrow> string option \<Rightarrow> exn + 'd option" where
  "to_datetime_cell lib col x =
     (case x of
        None \<Rightarrow> Inr None
      | Some s \<Rightarrow> (case parse_datetime lib col s of Inl e \<Rightarrow> Inl e | Inr d \<Rightarrow> Inr (Some d)))"

definition to_datetime :: "('d, 'n) pandas \<Rightarrow> ('d, 'n) column \<Rightarrow> exn + ('d, 'n) column" where
  "to_datetime lib c =
     (case c of
        Object xs \<Rightarrow>
          (case sequence_exn (map (to_datetime_cell lib xs) xs) of
             Inl e \<Rightarrow> Inl e
           | Inr ds \<Rightarrow> Inr (Datetime ds))
      | Datetime ds \<Rightarrow> Inr (Datetime ds)
      | Numeric ns \<Rightarrow> Inl (Exn False False ''to_datetime of a numeric column''))"

definition to_numeric_cell :: "('d, 'n) pandas \<Rightarrow> string option \<Rightarrow> 'n option" where
  "to_numeric_cell lib x = (case x of None \<Rightarrow> None | Some s \<Rightarrow> parse_numeric lib s)"

definition to_numeric :: "('d, 'n) pandas \<Rightarrow> ('d, 'n) column \<Rightarrow> exn + ('d, 'n) column" where
  "to_numeric lib c =
     (case c of
        Object xs \<Rightarrow> Inr (Numeric (map (to_numeric_cell lib) xs))
      | Numeric ns \<Rightarrow> Inr (Numeric ns)
      | Datetime ds \<Rightarrow> Inl (Exn False False ''to_numeric of a datetime column''))"

text \<open>\<^verbatim>\<open>column.isna().sum()\<close>.\<close>

definition count_none :: "'a option list \<Rightarrow> nat" where
  "count_none xs = length (filter (\<lambda>x. x = None) xs)"

definition isna_sum :: "('d, 'n) column \<Rightarrow> nat" where
  "isna_sum c =
     (case c of
        Object xs \<Rightarrow> count_none xs
      | Datetime ds \<Rightarrow> count_none ds
      | Numeric ns \<Rightarrow> count_none ns)"

text \<open>
  \<^verbatim>\<open>df.to_csv(filename, index=False)\<close>: a header line with the column names, then
  one line per row, no index column.  A missing value is written as the empty string
  (\<^verbatim>\<open>na_rep=''\<close>).  The lines go through Python's \<^verbatim>\<open>csv.writer\<close> with its default
  dialect: fields joined by commas; a field that holds a comma, a double quote or a
  character of the line terminator (in recent versions of Python, any carriage return or
  line feed) is put in double quotes, its double quotes doubled.
\<close>

definition render_cell :: "('a \<Rightarrow> string) \<Rightarrow> 'a option \<Rightarrow> string" where
  "render_cell fmt x = (case x of None \<Rightarrow> [] | Some v \<Rightarrow> fmt v)"

definition render_column :: "('d, 'n) pandas \<Rightarrow> ('d, 'n) column \<Rightarrow> string list" where
  "render_column lib c =
     (case c of
        Object xs \<Rightarrow> map (render_cell (\<lambda>s. s)) xs
      | Datetime ds \<Rightarrow> map (render_cell (format_datetime lib ds)) ds
      | Numeric ns \<Rightarrow> map (render_cell (format_numeric lib ns)) ns)"

definition csv_header :: "('d, 'n) frame \<Rightarrow> string list" where
  "csv_header df = column_names df"

definition csv_rows :: "('d, 'n) pandas \<Rightarrow> ('d, 'n) frame \<Rightarrow> string list list" where
  "csv_rows lib df =
     map (\<lambda>i. map (\<lambda>(k, c). render_column lib c ! i) (cols df)) [0..<nrows df]"

definition special_char :: "bool \<Rightarrow> string \<Rightarrow> char \<Rightarrow> bool" where
  "special_char breaks lt c =
     (c = CHR '','' \<or> c = CHR 0x22 \<or> c \<in> set lt
      \<or> (breaks \<and> (c = CHR 0x0A \<or> c = CHR 0x0D)))"

definition csv_field :: "bool \<Rightarrow> string \<Rightarrow> string \<Rightarrow> string" where
  "csv_field breaks lt s =
     (if list_ex (special_char breaks lt) s
      then [CHR 0x22] @ concat (map (\<lambda>c. if c = CHR 0x22 then [c, c] else [c]) s) @ [CHR 0x22]
      else s)"

fun join_fields :: "string list \<Rightarrow> string" where
  "join_fields [] = []"
| "join_fields [f] = f"
| "join_fields (f # g # fs) = f @ '','' @ join_fields (g # fs)"

definition csv_line :: "bool \<Rightarrow> string \<Rightarrow> string list \<Rightarrow> string" where
  "csv_line breaks lt row = join_fields (map (csv_field breaks lt) row) @ lt"

definition csv_text :: "bool \<Rightarrow> string \<Rightarrow> string list \<Rightarrow> string list list \<Rightarrow> string" where
  "csv_text breaks lt header rows = concat (map (csv_line breaks lt) (header # rows))"

definition to_csv :: "('d, 'n) pandas \<Rightarrow> ('d, 'n) frame \<Rightarrow> string" where
  "to_csv lib df =
     csv_text (quote_line_breaks lib) (lineterminator lib) (csv_header df) (csv_rows lib df)"

subsection \<open>Python strings\<close>

text \<open>
  A string is its UTF-8 text, a \<open>char\<close> being a byte; a byte below 128 is an ASCII
  character, and no byte of a character beyond ASCII is below 128.
  \<^verbatim>\<open>str.lower\<close> turns the letters A to Z of ASCII text into a to z and leaves its
  other characters; on text with characters beyond ASCII it follows the Unicode tables
  (and may change the length), which is the library's \<open>unicode_lower\<close>.
  \<^verbatim>\<open>str.replace(old, new)\<close> replaces every occurrence of \<open>old\<close>, from the left, without
  overlap; with an empty \<open>old\<close>, \<open>new\<close> goes before every character and at the end.
\<close>

definition is_ascii :: "char \<Rightarrow> bool" where
  "is_ascii c = (\<not> digit7 c)"

definition lower_char :: "char \<Rightarrow> char" where
  "lower_char c =
     (case map_of (zip ''ABCDEFGHIJKLMNOPQRSTUVWXYZ'' ''abcdefghijklmnopqrstuvwxyz'') c of
        None \<Rightarrow> c
      | Some l \<Rightarrow> l)"

definition lower :: "('d, 'n) pandas \<Rightarrow> string \<Rightarrow> string" where
  "lower lib s = (if list_all is_ascii s then map lower_char s else unicode_lower lib s)"

function replace :: "string \<Rightarrow> string \<Rightarrow> string \<Rightarrow> string" where
  "replace s old new =
     (if old = [] then new @ concat (map (\<lambda>c. c # new) s)
      else if s = [] then []
      else if take (length old) s = old then new @ replace (drop (length old) s) old new
      else hd s # replace (tl s) old new)"
  by pat_completeness auto
termination
  by (relation "measure (\<lambda>(s, old, new). length s)") auto

declare replace.simps [simp del]

subsection \<open>The state the function works on\<close>

text \<open>
  The local counter \<^verbatim>\<open>total_nas_found\<close>, the files on disk (path to content) and
  the lines printed so far.
\<close>

record state =
  total_nas_found :: nat
  files :: "string \<rightharpoonup> string"
  stdout :: "event list"

definition print_line :: "event \<Rightarrow> state \<Rightarrow> state" where
  "print_line ev s = s\<lparr>stdout := stdout s @ [ev]\<rparr>"

subsection \<open>The function\<close>

definition base_url :: string where
  "base_url = ''https://api.stlouisfed.org/fred/series/observations''"

definition data_folder :: string where
  "data_folder = ''data''"

definition columns_to_drop :: "string list" where
  "columns_to_drop = [''realtime_start'', ''realtime_end'']"

definition api_url_of :: "string \<Rightarrow> string \<Rightarrow> string \<Rightarrow> string \<Rightarrow> string" where
  "api_url_of series_id api_key start_date end_date =
     base_url @ ''?series_id='' @ series_id @ ''&api_key='' @ api_key @ ''&file_type=json''
       @ ''&observation_start='' @ start_date @ ''&observation_end='' @ end_date"

definition filename_of :: "('d, 'n) pandas \<Rightarrow> string \<Rightarrow> string" where
  "filename_of lib name =
     data_folder @ ''/'' @ replace (lower lib name) '' '' ''_'' @ ''.csv''"

text \<open>The first three statements of the \<^verbatim>\<open>try\<close> block.\<close>

definition fetch :: "env \<Rightarrow> string \<Rightarrow> exn + payload" where
  "fetch ev api_url =
     (case requests_get ev api_url of
        Inl e \<Rightarrow> Inl e
      | Inr response \<Rightarrow>
          (case raise_for_status response of
             Some e \<Rightarrow> Inl e
           | None \<Rightarrow> json response))"

text \<open>From \<^verbatim>\<open>pd.DataFrame(data['observations'])\<close> to the assignment of the numeric
  column.\<close>

definition clean :: "('d, 'n) pandas \<Rightarrow> observation list \<Rightarrow> exn + ('d, 'n) frame" where
  "clean lib records =
     (let df = DataFrame records in
      case drop_columns (filter (\<lambda>col. col \<in> set (column_names df)) columns_to_drop) df of
        Inl e \<Rightarrow> Inl e
      | Inr df \<Rightarrow>
     (case getitem df ''date'' of
        Inl e \<Rightarrow> Inl e
      | Inr c \<Rightarrow>
     (case to_datetime lib c of
        Inl e \<Rightarrow> Inl e
      | Inr c \<Rightarrow>
     (let df = setitem df ''date'' c in
      case getitem df ''value'' of
        Inl e \<Rightarrow> Inl e
      | Inr c \<Rightarrow>
     (case to_numeric lib c of
        Inl e \<Rightarrow> Inl e
      | Inr c \<Rightarrow> Inr (setitem df ''value'' c))))))"

text \<open>\<^verbatim>\<open>df.to_csv(filename, index=False)\<close> on the file system: the file is replaced
  by the text; when the write fails, the exception comes with the state it leaves, the
  file as it was or holding what the failure left of it.\<close>

definition write_csv ::
  "('d, 'n) pandas \<Rightarrow> env \<Rightarrow> string \<Rightarrow> ('d, 'n) frame \<Rightarrow> state \<Rightarrow> (exn \<times> state) + state" where
  "write_csv lib ev filename df s =
     (case open_for_write ev filename of
        Some e \<Rightarrow>
          (case left_by_failed_write ev filename (to_csv lib df) of
             None \<Rightarrow> Inl (e, s)
           | Some partial \<Rightarrow> Inl (e, s\<lparr>files := (files s)(filename \<mapsto> partial)\<rparr>))
      | None \<Rightarrow> Inr (s\<lparr>files := (files s)(filename \<mapsto> to_csv lib df)\<rparr>))"

text \<open>
  The \<^verbatim>\<open>try\<close> block: the exception it raises, if any, and the state where it stops.
  \<^verbatim>\<open>continue\<close> leaves the block with no exception.
\<close>

definition try_block ::
  "('d, 'n) pandas \<Rightarrow> env \<Rightarrow> string \<Rightarrow> string \<Rightarrow> string \<Rightarrow> state \<Rightarrow> exn option \<times> state" where
  "try_block lib ev name series_id api_url s =
     (case fetch ev api_url of
        Inl e \<Rightarrow> (Some e, s)
      | Inr data \<Rightarrow>
          if data ''observations'' = None \<or> the (data ''observations'') = []
          then (None, print_line (NoObservations series_id) s)
          else
            (case clean lib (the (data ''observations'')) of
               Inl e \<Rightarrow> (Some e, s)
             | Inr df \<Rightarrow>
            (case getitem df ''value'' of
               Inl e \<Rightarrow> (Some e, s)
             | Inr c \<Rightarrow>
            (let nas_in_current_series = isna_sum c;
                 s = s\<lparr>total_nas_found := total_nas_found s + nas_in_current_series\<rparr>;
                 s = (if nas_in_current_series > 0
                      then print_line (FoundNA nas_in_current_series series_id) s else s);
                 df = rename_column ''value'' series_id df
             in if empty_df df
                then (None, print_line (NoValidObservations series_id) s)
                else
                  (let filename = filename_of lib name in
                   case write_csv lib ev filename df s of
                     Inl (e, s) \<Rightarrow> (Some e, s)
                   | Inr s \<Rightarrow> (None, print_line (Saved (nrows df) filename) s))))))"

text \<open>The three \<^verbatim>\<open>except\<close> clauses, in their order.\<close>

definition except :: "string \<Rightarrow> exn \<Rightarrow> state \<Rightarrow> state" where
  "except series_id e s =
     (if is_RequestException e then print_line (RequestError series_id e) s
      else if is_ValueError e then print_line (ProcessingError series_id e) s
      else print_line (UnexpectedError series_id e) s)"

text \<open>One iteration of the loop, for the entry \<open>(name, series_id)\<close>.\<close>

definition loop_body ::
  "('d, 'n) pandas \<Rightarrow> env \<Rightarrow> string \<Rightarrow> string \<Rightarrow> string \<times> string \<Rightarrow> state \<Rightarrow> state" where
  "loop_body lib ev api_key start_date entry s =
     (let name = fst entry; series_id = snd entry;
          end_date = today ev;
          s = print_line (Attempting name series_id) s;
          api_url = api_url_of series_id api_key start_date end_date
      in case try_block lib ev name series_id api_url s of
           (None, s) \<Rightarrow> s
         | (Some e, s) \<Rightarrow> except series_id e s)"

text \<open>The loop over \<^verbatim>\<open>series_ids_dict.items()\<close>, a list of entries in insertion
  order.\<close>

fun for_loop ::
  "('d, 'n) pandas \<Rightarrow> env \<Rightarrow> string \<Rightarrow> string \<Rightarrow> (string \<times> string) list \<Rightarrow> state \<Rightarrow> state" where
  "for_loop lib ev api_key start_date [] s = s"
| "for_loop lib ev api_key start_date (entry # rest) s =
     for_loop lib ev api_key start_date rest (loop_body lib ev api_key start_date entry s)"

text \<open>The function: the counter starts at zero, the loop runs, the two closing
  lines are printed.\<close>

definition get_fred_series_and_export_csv ::
  "('d, 'n) pandas \<Rightarrow> env \<Rightarrow> (string \<times> string) list \<Rightarrow> string \<Rightarrow> string \<Rightarrow> state \<Rightarrow> state" where
  "get_fred_series_and_export_csv lib ev series_ids_dict api_key start_date s =
     (let s = s\<lparr>total_nas_found := 0\<rparr>;
          s = for_loop lib ev api_key start_date series_ids_dict s;
          s = print_line ProcessCompleted s
      in print_line (TotalNA (total_nas_found s)) s)"

subsection \<open>The function on a console that can fail\<close>








subsection \<open>Descriptions used by the theorems\<close>

text \<open>
  The columns that survive the drop, the raw column of a key, and the column a key has
  after cleaning (\<open>ds\<close> being the converted dates).
\<close>

definition keys_of :: "observation list \<Rightarrow> string list" where
  "keys_of records =
     filter (\<lambda>k. k \<notin> set columns_to_drop) (first_seen (concat (map (map fst) records)))"

definition raw_column :: "observation list \<Rightarrow> string \<Rightarrow> string option list" where
  "raw_column records k = map (\<lambda>r. map_of r k) records"

definition cleaned_cols ::
  "('d, 'n) pandas \<Rightarrow> observation list \<Rightarrow> 'd option list \<Rightarrow> string \<Rightarrow> ('d, 'n) column" where
  "cleaned_cols lib records ds k =
     (if k = ''value'' then Numeric (map (to_numeric_cell lib) (raw_column records ''value''))
      else if k = ''date'' then Datetime ds
      else Object (raw_column records k))"

text \<open>
  The state before anything has happened, and a state \<open>s\<close> followed by the effect \<open>d\<close>
  of a run that started from \<open>blank\<close>: counts add up, later files replace earlier ones,
  printed lines follow each other.
\<close>

definition blank :: state where
  "blank = \<lparr>total_nas_found = 0, files = Map.empty, stdout = []\<rparr>"

definition after :: "state \<Rightarrow> state \<Rightarrow> state" where
  "after s d =
     \<lparr>total_nas_found = total_nas_found s + total_nas_found d,
      files = files s ++ files d,
      stdout = stdout s @ stdout d\<rparr>"

text \<open>
  What one entry of the dictionary does on its own: the URL it requests, the exception
  its \<^verbatim>\<open>try\<close> block raises, its whole effect, and the numeric column it computes when
  it gets as far as the coercion (with the number of missing values in it).
\<close>

definition entry_url :: "env \<Rightarrow> string \<Rightarrow> string \<Rightarrow> string \<times> string \<Rightarrow> string" where
  "entry_url ev api_key start_date entry =
     api_url_of (snd entry) api_key start_date (today ev)"


definition series_effect ::
  "('d, 'n) pandas \<Rightarrow> env \<Rightarrow> string \<Rightarrow> string \<Rightarrow> string \<times> string \<Rightarrow> state" where
  "series_effect lib ev api_key start_date entry = loop_body lib ev api_key start_date entry blank"

definition coerced ::
  "('d, 'n) pandas \<Rightarrow> env \<Rightarrow> string \<Rightarrow> string \<Rightarrow> string \<times> string \<Rightarrow> ('d, 'n) column option" where
  "coerced lib ev api_key start_date entry =
     (case fetch ev (entry_url ev api_key start_date entry) of
        Inl e \<Rightarrow> None
      | Inr data \<Rightarrow>
          (case data ''observations'' of
             None \<Rightarrow> None
           | Some records \<Rightarrow>
               if records = [] then None
               else (case clean lib records of
                       Inl e \<Rightarrow> None
                     | Inr df \<Rightarrow> (case getitem df ''value'' of Inl e \<Rightarrow> None | Inr c \<Rightarrow> Some c))))"

definition missing_count ::
  "('d, 'n) pandas \<Rightarrow> env \<Rightarrow> string \<Rightarrow> string \<Rightarrow> string \<times> string \<Rightarrow> nat" where
  "missing_count lib ev api_key start_date entry =
     (case coerced lib ev api_key start_date entry of None \<Rightarrow> 0 | Some c \<Rightarrow> isna_sum c)"

text \<open>
  The file path in the words of the specification: the lower-cased name with every space
  replaced by an underscore, under the directory \<^verbatim>\<open>data\<close>, with the suffix \<^verbatim>\<open>.csv\<close>.
  \<open>spaces_to_underscores\<close> is the replacement, character by character;
  \<open>ascii_lowered\<close> is lower-casing as ASCII has it, by code: the letters are the codes
  65 to 90, and the lower-case letter of a letter is 32 codes above it.
\<close>

definition spaces_to_underscores :: "string \<Rightarrow> string" where
  "spaces_to_underscores s = map (\<lambda>c. if c = CHR '' '' then CHR ''_'' else c) s"

definition ascii_lowered :: "char \<Rightarrow> char" where
  "ascii_lowered c =
     (if 65 \<le> (of_char c :: nat) \<and> (of_char c :: nat) \<le> 90
      then char_of ((of_char c :: nat) + 32) else c)"

definition normalized_name :: "string \<Rightarrow> string" where
  "normalized_name name = spaces_to_underscores (map ascii_lowered name)"

definition expected_path :: "string \<Rightarrow> string" where
  "expected_path name = ''data/'' @ normalized_name name @ ''.csv''"

subsection \<open>A test double of the library and of the service\<close>

text \<open>
  For the worked examples: a pandas that keeps a date of ten characters and any value
  but the sentinel \<^verbatim>\<open>.\<close> as their text and ends lines with a line feed (the examples
  have ASCII names only, so that \<open>unicode_lower\<close> is never called), and an environment
  whose service answers every request with the same body (or answers by URL), whose
  directory \<^verbatim>\<open>data\<close> can be written and whose console prints every line.
\<close>

definition demo_pandas :: "(string, string) pandas" where
  "demo_pandas =
     \<lparr>parse_datetime = (\<lambda>col s. if length s = 10 then Inr s else Inl (Exn False True s)),
      parse_numeric = (\<lambda>s. if s = ''.'' then None else Some s),
      format_datetime = (\<lambda>col d. d),
      format_numeric = (\<lambda>col v. v),
      lineterminator = [CHR 0x0A],
      quote_line_breaks = False,
      unicode_lower = (\<lambda>s. s)\<rparr>"

definition ok_response :: "observation list \<Rightarrow> exn + response" where
  "ok_response records =
     Inr \<lparr>raise_for_status = None, json = Inr [''observations'' \<mapsto> records]\<rparr>"

definition demo_env :: "(string \<Rightarrow> exn + response) \<Rightarrow> env" where
  "demo_env service =
     \<lparr>today = ''2024-06-30'', requests_get = service, open_for_write = (\<lambda>path. None),
      left_by_failed_write = (\<lambda>path text. None), stdout_fault = (\<lambda>line. None)\<rparr>"

text \<open>The value column after the coercion; the line of an \<^verbatim>\<open>except\<close> clause; the
  line that reports missing values, printed when there are some.\<close>

definition coerced_values :: "('d, 'n) pandas \<Rightarrow> observation list \<Rightarrow> 'n option list" where
  "coerced_values lib records = map (to_numeric_cell lib) (raw_column records ''value'')"

definition error_line :: "string \<Rightarrow> exn \<Rightarrow> event" where
  "error_line series_id e =
     (if is_RequestException e then RequestError series_id e
      else if is_ValueError e then ProcessingError series_id e
      else UnexpectedError series_id e)"

definition found_lines :: "nat \<Rightarrow> string \<Rightarrow> event list" where
  "found_lines nas series_id = (if 0 < nas then [FoundNA nas series_id] else [])"

text \<open>A service that fails for the series \<^verbatim>\<open>BAD\<close> and answers every other request
  with two observations, the first of which has the sentinel for a value.\<close>

definition demo_service :: "string \<Rightarrow> exn + response" where
  "demo_service url =
     (if url = api_url_of ''BAD'' ''key'' ''1990-01-01'' ''2024-06-30''
      then Inl (Exn True False ''503 Server Error'')
      else ok_response [[(''date'', ''2020-01-01''), (''value'', ''.'')],
                        [(''date'', ''2020-02-01''), (''value'', ''3.5'')]])"


section \<open>Properties of the library model\<close>

lemma first_seen_distinct: "distinct (first_seen xs)"
  by (simp add: first_seen_def)

lemma set_first_seen: "set (first_seen xs) = set xs"
  by (simp add: first_seen_def)

lemma map_of_tabulate:
  "map_of (map (\<lambda>k. (k, f k)) ks) k = (if k \<in> set ks then Some (f k) else None)"
  by (induction ks) auto

text \<open>The guard of the drop makes it total: a label that is no column is not passed.\<close>

lemma drop_columns_guarded:
  "drop_columns (filter (\<lambda>col. col \<in> set (column_names df)) labels) df =
     Inr (df\<lparr>cols := filter (\<lambda>(k, c). k \<notin> set labels) (cols df)\<rparr>)"
proof -
  have none_missing:
    "filter (\<lambda>l. l \<notin> set (column_names df))
       (filter (\<lambda>col. col \<in> set (column_names df)) labels) = []"
    by (induction labels) auto
  have same:
    "filter (\<lambda>(k, c). k \<notin> set (filter (\<lambda>col. col \<in> set (column_names df)) labels)) (cols df)
       = filter (\<lambda>(k, c). k \<notin> set labels) (cols df)"
    by (rule filter_cong) (force simp: column_names_def)+
  show ?thesis
    unfolding drop_columns_def by (simp only: none_missing same list.case)
qed

lemma getitem_tabulate:
  "getitem \<lparr>nrows = n, cols = map (\<lambda>k. (k, f k)) ks\<rparr> key =
     (if key \<in> set ks then Inr (f key) else Inl (KeyError key))"
  by (simp add: getitem_def map_of_tabulate)

lemma setitem_tabulate:
  "key \<in> set ks \<Longrightarrow>
   setitem \<lparr>nrows = n, cols = map (\<lambda>k. (k, f k)) ks\<rparr> key c =
     \<lparr>nrows = n, cols = map (\<lambda>k. (k, (f(key := c)) k)) ks\<rparr>"
  by (simp add: setitem_def column_names_def comp_def image_iff)

lemma dropped_frame:
  "drop_columns
       (filter (\<lambda>col. col \<in> set (column_names (DataFrame records :: ('d, 'n) frame)))
          columns_to_drop)
       (DataFrame records :: ('d, 'n) frame) =
     Inr \<lparr>nrows = length records,
          cols = map (\<lambda>k. (k, Object (raw_column records k))) (keys_of records)\<rparr>"
  unfolding drop_columns_guarded
  by (simp add: DataFrame_def keys_of_def raw_column_def filter_map comp_def)

section \<open>The cleaning step, in closed form\<close>

text \<open>
  Cleaning fails with a KeyError when no record has a date or none has a value, and
  with the exception of \<^verbatim>\<open>to_datetime\<close> when a date does not parse; otherwise it
  yields one row per record and the surviving columns in their order, the date and the
  value column converted.  The values never make it fail.
\<close>

lemma clean_eq:
  "clean lib records =
     (if ''date'' \<notin> set (keys_of records) then Inl (KeyError ''date'')
      else case sequence_exn (map (to_datetime_cell lib (raw_column records ''date''))
                                (raw_column records ''date'')) of
        Inl e \<Rightarrow> Inl e
      | Inr ds \<Rightarrow>
          if ''value'' \<notin> set (keys_of records) then Inl (KeyError ''value'')
          else Inr \<lparr>nrows = length records,
                    cols = map (\<lambda>k. (k, cleaned_cols lib records ds k)) (keys_of records)\<rparr>)"
proof (cases "''date'' \<in> set (keys_of records)")
  case False
  then show ?thesis
    unfolding clean_def Let_def dropped_frame by (simp add: getitem_tabulate)
next
  case date: True
  show ?thesis
  proof (cases "sequence_exn (map (to_datetime_cell lib (raw_column records ''date''))
                                (raw_column records ''date''))")
    case (Inl e)
    with date show ?thesis
      unfolding clean_def Let_def dropped_frame
      by (simp add: getitem_tabulate to_datetime_def)
  next
    case (Inr ds)
    show ?thesis
    proof (cases "''value'' \<in> set (keys_of records)")
      case False
      with date Inr show ?thesis
        unfolding clean_def Let_def dropped_frame
        by (simp add: getitem_tabulate to_datetime_def setitem_tabulate)
    next
      case True
      with date Inr show ?thesis
        unfolding clean_def Let_def dropped_frame
        by (simp add: getitem_tabulate to_datetime_def setitem_tabulate to_numeric_def
            cleaned_cols_def)
    qed
  qed
qed

section \<open>An iteration acts on the state by appending its own effect\<close>

lemma after_simps [simp]:
  "total_nas_found (after s d) = total_nas_found s + total_nas_found d"
  "files (after s d) = files s ++ files d"
  "stdout (after s d) = stdout s @ stdout d"
  by (simp_all add: after_def)

lemma after_blank [simp]: "after s blank = s" "after blank d = d"
  by (simp_all add: after_def blank_def)

lemma print_line_after: "print_line e (after s d) = after s (print_line e d)"
  by (simp add: after_def print_line_def)

lemma try_block_after:
  "try_block lib ev name sid url (after s d) =
     (fst (try_block lib ev name sid url d), after s (snd (try_block lib ev name sid url d)))"
  unfolding try_block_def
  by (auto simp: Let_def print_line_def write_csv_def after_def
      split: sum.splits option.splits prod.splits)

lemma except_after: "except sid e (after s d) = after s (except sid e d)"
  by (simp add: except_def print_line_after)

lemma loop_body_after:
  "loop_body lib ev k sd entry (after s d) = after s (loop_body lib ev k sd entry d)"
  unfolding loop_body_def Let_def print_line_after try_block_after
  by (simp add: except_after split: prod.splits option.splits)

lemma for_loop_after:
  "for_loop lib ev k sd dict (after s d) = after s (for_loop lib ev k sd dict d)"
  by (induction dict arbitrary: d) (simp_all add: loop_body_after)

lemma loop_body_effect:
  "loop_body lib ev k sd entry s = after s (series_effect lib ev k sd entry)"
  using loop_body_after [of lib ev k sd entry s blank] by (simp add: series_effect_def)


section \<open>The success path of an iteration\<close>

lemma replace_single: "replace s [a] [b] = map (\<lambda>c. if c = a then b else c) s"
proof (induction s)
  case Nil
  show ?case by (subst replace.simps) simp
next
  case (Cons x xs)
  show ?case by (subst replace.simps) (simp add: Cons.IH)
qed

lemma filename_of_replace:
  "filename_of lib name = ''data/'' @ spaces_to_underscores (lower lib name) @ ''.csv''"
  by (simp add: filename_of_def data_folder_def spaces_to_underscores_def replace_single)

lemmas path_defs =
  filename_of_replace spaces_to_underscores_def lower_def is_ascii_def lower_char_def

lemma sequence_exn_length: "sequence_exn rs = Inr xs \<Longrightarrow> length xs = length rs"
proof (induction rs arbitrary: xs)
  case Nil
  then show ?case by simp
next
  case (Cons r rs)
  then show ?case by (cases r) (auto split: sum.splits)
qed

lemma clean_InrD:
  assumes "clean lib records = Inr df"
  shows "\<exists>ds. sequence_exn (map (to_datetime_cell lib (raw_column records ''date''))
                   (raw_column records ''date'')) = Inr ds
            \<and> ''date'' \<in> set (keys_of records) \<and> ''value'' \<in> set (keys_of records)
            \<and> df = \<lparr>nrows = length records,
                     cols = map (\<lambda>k. (k, cleaned_cols lib records ds k)) (keys_of records)\<rparr>"
  using assms unfolding clean_eq by (auto split: if_splits sum.splits)

lemma clean_value_column:
  assumes "clean lib records = Inr df"
  shows "getitem df ''value'' = Inr (Numeric (coerced_values lib records))"
proof -
  from clean_InrD [OF assms] obtain ds where
    v: "''value'' \<in> set (keys_of records)" and
    df: "df = \<lparr>nrows = length records,
               cols = map (\<lambda>k. (k, cleaned_cols lib records ds k)) (keys_of records)\<rparr>"
    by blast
  show ?thesis
    unfolding df getitem_tabulate using v by (simp add: cleaned_cols_def coerced_values_def)
qed

lemma clean_nrows: "clean lib records = Inr df \<Longrightarrow> nrows df = length records"
  by (drule clean_InrD) auto

lemma clean_cols_nonempty: "clean lib records = Inr df \<Longrightarrow> cols df \<noteq> []"
  by (drule clean_InrD) auto

lemma renamed_not_empty:
  "clean lib records = Inr df \<Longrightarrow> records \<noteq> [] \<Longrightarrow> \<not> empty_df (rename_column ''value'' sid df)"
  by (simp add: empty_df_def rename_column_def clean_nrows clean_cols_nonempty)

lemma nrows_rename [simp]: "nrows (rename_column a b df) = nrows df"
  by (simp add: rename_column_def)

lemma try_block_cleaned:
  assumes "fetch ev url = Inr data" and "data ''observations'' = Some records"
    and "records \<noteq> []" and "clean lib records = Inr df"
  shows "try_block lib ev name sid url s =
     (let nas = count_none (coerced_values lib records);
          s1 = s\<lparr>total_nas_found := total_nas_found s + nas\<rparr>;
          s2 = (if nas > 0 then print_line (FoundNA nas sid) s1 else s1)
      in case open_for_write ev (filename_of lib name) of
           Some e \<Rightarrow>
             (Some e,
              case left_by_failed_write ev (filename_of lib name)
                     (to_csv lib (rename_column ''value'' sid df)) of
                None \<Rightarrow> s2
              | Some partial \<Rightarrow> s2\<lparr>files := (files s2)(filename_of lib name \<mapsto> partial)\<rparr>)
         | None \<Rightarrow>
             (None, print_line (Saved (length records) (filename_of lib name))
                (s2\<lparr>files := (files s2)(filename_of lib name \<mapsto>
                      to_csv lib (rename_column ''value'' sid df))\<rparr>)))"
proof -
  have v: "getitem df ''value'' = Inr (Numeric (coerced_values lib records))"
    by (rule clean_value_column [OF assms(4)])
  have ne: "empty_df (rename_column ''value'' sid df) = False"
    using renamed_not_empty [OF assms(4,3)] by simp
  have n: "nrows (rename_column ''value'' sid df) = length records"
    using clean_nrows [OF assms(4)] by simp
  have o: "(data ''observations'' = None \<or> the (data ''observations'') = []) = False"
    using assms(2,3) by simp
  have t: "the (data ''observations'') = records"
    using assms(2) by simp
  show ?thesis
  proof (cases "open_for_write ev (filename_of lib name)")
    case None
    show ?thesis
      unfolding try_block_def
      by (simp add: assms v ne clean_nrows [OF assms(4)] Let_def isna_sum_def write_csv_def None)
  next
    case (Some e)
    show ?thesis
      unfolding try_block_def
      by (simp add: assms v ne clean_nrows [OF assms(4)] Let_def isna_sum_def write_csv_def Some
          split: option.splits)
  qed
qed


lemma loop_body_saved:
  assumes "fetch ev (entry_url ev k sd (name, sid)) = Inr data"
    and "data ''observations'' = Some records"
    and "records \<noteq> []" and "clean lib records = Inr df"
    and "open_for_write ev (filename_of lib name) = None"
  shows "loop_body lib ev k sd (name, sid) s =
     s\<lparr>total_nas_found := total_nas_found s + count_none (coerced_values lib records),
        files := (files s)(filename_of lib name \<mapsto> to_csv lib (rename_column ''value'' sid df)),
        stdout := stdout s @ [Attempting name sid]
          @ (if count_none (coerced_values lib records) > 0
             then [FoundNA (count_none (coerced_values lib records)) sid] else [])
          @ [Saved (length records) (filename_of lib name)]\<rparr>"
proof -
  have f: "fetch ev (api_url_of sid k sd (today ev)) = Inr data"
    using assms(1) by (simp add: entry_url_def)
  show ?thesis
    unfolding loop_body_def Let_def
    by (simp add: try_block_cleaned [OF f assms(2,3,4)] assms(5) print_line_def Let_def)
qed

section \<open>The outcomes of an iteration\<close>

lemma except_line: "except sid e s = print_line (error_line sid e) s"
  by (simp add: except_def error_line_def)

lemma series_effect_fetch_failed:
  assumes "fetch ev (entry_url ev k sd (name, sid)) = Inl e"
  shows "series_effect lib ev k sd (name, sid) =
           blank\<lparr>stdout := [Attempting name sid, error_line sid e]\<rparr>"
  using assms
  by (simp add: series_effect_def loop_body_def try_block_def entry_url_def except_line
      print_line_def blank_def Let_def)

lemma series_effect_no_observations:
  assumes "fetch ev (entry_url ev k sd (name, sid)) = Inr data"
    and "data ''observations'' = None \<or> data ''observations'' = Some []"
  shows "series_effect lib ev k sd (name, sid) =
           blank\<lparr>stdout := [Attempting name sid, NoObservations sid]\<rparr>"
  using assms
  by (auto simp: series_effect_def loop_body_def try_block_def entry_url_def
      print_line_def blank_def Let_def)

lemma series_effect_clean_failed:
  assumes "fetch ev (entry_url ev k sd (name, sid)) = Inr data"
    and "data ''observations'' = Some records" and "records \<noteq> []"
    and "clean lib records = Inl e"
  shows "series_effect lib ev k sd (name, sid) =
           blank\<lparr>stdout := [Attempting name sid, error_line sid e]\<rparr>"
  using assms
  by (simp add: series_effect_def loop_body_def try_block_def entry_url_def except_line
      print_line_def blank_def Let_def)

lemma series_effect_write_failed:
  assumes "fetch ev (entry_url ev k sd (name, sid)) = Inr data"
    and "data ''observations'' = Some records" and "records \<noteq> []"
    and "clean lib records = Inr df"
    and "open_for_write ev (filename_of lib name) = Some e"
  shows "series_effect lib ev k sd (name, sid) =
           \<lparr>total_nas_found = count_none (coerced_values lib records),
            files = (case left_by_failed_write ev (filename_of lib name)
                            (to_csv lib (rename_column ''value'' sid df)) of
                       None \<Rightarrow> Map.empty
                     | Some partial \<Rightarrow> [filename_of lib name \<mapsto> partial]),
            stdout = [Attempting name sid] @ found_lines (count_none (coerced_values lib records)) sid
                       @ [error_line sid e]\<rparr>"
proof -
  have f: "fetch ev (api_url_of sid k sd (today ev)) = Inr data"
    using assms(1) by (simp add: entry_url_def)
  show ?thesis
    unfolding series_effect_def loop_body_def Let_def
    by (simp add: try_block_cleaned [OF f assms(2,3,4)] assms(5) print_line_def Let_def
        except_line found_lines_def blank_def split: option.splits)
qed

lemma series_effect_saved:
  assumes "fetch ev (entry_url ev k sd (name, sid)) = Inr data"
    and "data ''observations'' = Some records" and "records \<noteq> []"
    and "clean lib records = Inr df"
    and "open_for_write ev (filename_of lib name) = None"
  shows "series_effect lib ev k sd (name, sid) =
           \<lparr>total_nas_found = count_none (coerced_values lib records),
            files = [filename_of lib name \<mapsto> to_csv lib (rename_column ''value'' sid df)],
            stdout = [Attempting name sid] @ found_lines (count_none (coerced_values lib records)) sid
                       @ [Saved (length records) (filename_of lib name)]\<rparr>"
  unfolding series_effect_def loop_body_saved [OF assms]
  by (simp add: blank_def found_lines_def)

text \<open>The five outcomes are all there are.\<close>

lemma series_effect_cases:
  obtains
    (fetch_failed) e where "fetch ev (entry_url ev k sd (name, sid)) = Inl e"
  | (no_observations) data where "fetch ev (entry_url ev k sd (name, sid)) = Inr data"
      "data ''observations'' = None \<or> data ''observations'' = Some []"
  | (clean_failed) data records e where "fetch ev (entry_url ev k sd (name, sid)) = Inr data"
      "data ''observations'' = Some records" "records \<noteq> []" "clean lib records = Inl e"
  | (write_failed) data records df e where "fetch ev (entry_url ev k sd (name, sid)) = Inr data"
      "data ''observations'' = Some records" "records \<noteq> []" "clean lib records = Inr df"
      "open_for_write ev (filename_of lib name) = Some e"
  | (saved) data records df where "fetch ev (entry_url ev k sd (name, sid)) = Inr data"
      "data ''observations'' = Some records" "records \<noteq> []" "clean lib records = Inr df"
      "open_for_write ev (filename_of lib name) = None"
proof (cases "fetch ev (entry_url ev k sd (name, sid))")
  case (Inl e)
  then show ?thesis by (rule fetch_failed)
next
  case (Inr data)
  show ?thesis
  proof (cases "data ''observations''")
    case None
    with Inr show ?thesis by (intro no_observations) auto
  next
    case (Some records)
    show ?thesis
    proof (cases "records = []")
      case True
      with Inr Some show ?thesis by (intro no_observations) auto
    next
      case False
      show ?thesis
      proof (cases "clean lib records")
        case (Inl e)
        with Inr Some False show ?thesis by (intro clean_failed)
      next
        case df: (Inr df)
        show ?thesis
        proof (cases "open_for_write ev (filename_of lib name)")
          case None
          with Inr Some False df show ?thesis by (intro saved)
        next
          case (Some e)
          with Inr \<open>data ''observations'' = Some records\<close> False df show ?thesis
            by (intro write_failed)
        qed
      qed
    qed
  qed
qed

section \<open>The loop as the sum of its iterations\<close>

lemma fetch_entry: "fetch ev (entry_url ev k sd (name, sid)) = r \<Longrightarrow>
    fetch ev (api_url_of sid k sd (today ev)) = r"
  by (simp add: entry_url_def)


lemma coerced_cleaned:
  assumes "fetch ev (entry_url ev k sd (name, sid)) = Inr data"
    and "data ''observations'' = Some records" and "records \<noteq> []"
    and "clean lib records = Inr df"
  shows "coerced lib ev k sd (name, sid) = Some (Numeric (coerced_values lib records))"
  using assms by (simp add: coerced_def clean_value_column)

lemma missing_count_cleaned:
  assumes "fetch ev (entry_url ev k sd (name, sid)) = Inr data"
    and "data ''observations'' = Some records" and "records \<noteq> []"
    and "clean lib records = Inr df"
  shows "missing_count lib ev k sd (name, sid) = count_none (coerced_values lib records)"
  by (simp add: missing_count_def coerced_cleaned [OF assms] isna_sum_def)

lemma total_series_effect_pair:
  "total_nas_found (series_effect lib ev k sd (name, sid)) = missing_count lib ev k sd (name, sid)"
proof (cases rule: series_effect_cases [where ev = ev and k = k and sd = sd and name = name and sid = sid and lib = lib])
  case (fetch_failed e)
  then show ?thesis
    by (simp add: series_effect_fetch_failed missing_count_def coerced_def blank_def)
next
  case (no_observations data)
  then show ?thesis
    by (auto simp: series_effect_no_observations missing_count_def coerced_def blank_def)
next
  case (clean_failed data records e)
  then show ?thesis
    by (simp add: series_effect_clean_failed missing_count_def coerced_def blank_def)
next
  case (write_failed data records df e)
  then show ?thesis
    by (simp add: series_effect_write_failed missing_count_cleaned)
next
  case (saved data records df)
  then show ?thesis
    by (simp add: series_effect_saved missing_count_cleaned)
qed

lemma total_series_effect:
  "total_nas_found (series_effect lib ev k sd entry) = missing_count lib ev k sd entry"
  by (cases entry) (simp add: total_series_effect_pair)


lemma for_loop_effect:
  "for_loop lib ev k sd dict s = after s (for_loop lib ev k sd dict blank)"
  using for_loop_after [of lib ev k sd dict s blank] by simp

lemma for_loop_Cons_blank:
  "for_loop lib ev k sd (entry # rest) blank =
     after (series_effect lib ev k sd entry) (for_loop lib ev k sd rest blank)"
  using for_loop_effect [of lib ev k sd rest "series_effect lib ev k sd entry"]
  by (simp add: series_effect_def)

lemma stdout_for_loop:
  "stdout (for_loop lib ev k sd dict blank) =
     concat (map (\<lambda>entry. stdout (series_effect lib ev k sd entry)) dict)"
proof (induction dict)
  case Nil
  show ?case by (simp add: blank_def)
next
  case (Cons entry rest)
  then show ?case by (simp add: for_loop_Cons_blank del: for_loop.simps)
qed

lemma total_for_loop:
  "total_nas_found (for_loop lib ev k sd dict blank) =
     sum_list (map (missing_count lib ev k sd) dict)"
proof (induction dict)
  case Nil
  show ?case by (simp add: blank_def)
next
  case (Cons entry rest)
  then show ?case
    by (simp add: for_loop_Cons_blank total_series_effect del: for_loop.simps)
qed


lemma main_effect:
  "get_fred_series_and_export_csv lib ev dict k sd s =
     \<lparr>total_nas_found = sum_list (map (missing_count lib ev k sd) dict),
      files = files s ++ files (for_loop lib ev k sd dict blank),
      stdout = stdout s @ concat (map (\<lambda>entry. stdout (series_effect lib ev k sd entry)) dict)
                 @ [ProcessCompleted, TotalNA (sum_list (map (missing_count lib ev k sd) dict))]\<rparr>"
  unfolding get_fred_series_and_export_csv_def Let_def
  by (subst (1 2 3) for_loop_effect)
     (simp add: print_line_def stdout_for_loop total_for_loop)

lemma total_for_loop_from:
  "total_nas_found (for_loop lib ev k sd dict s) =
     total_nas_found s + sum_list (map (missing_count lib ev k sd) dict)"
  by (subst for_loop_effect) (simp add: total_for_loop)

lemma map_add_twice: "m ++ w ++ w = m ++ w"
  by (rule ext) (simp add: map_add_def split: option.splits)

section \<open>Evaluating the worked examples\<close>

lemmas run_defs =
  fetch_def clean_eq keys_of_def raw_column_def cleaned_cols_def first_seen_def
  columns_to_drop_def to_datetime_cell_def to_numeric_cell_def coerced_values_def
  count_none_def rename_column_def path_defs to_csv_def csv_header_def csv_rows_def csv_text_def
  csv_line_def csv_field_def special_char_def render_column_def render_cell_def
  column_names_def entry_url_def api_url_of_def base_url_def demo_pandas_def demo_env_def
  ok_response_def found_lines_def error_line_def


lemma demo_bad_count: "missing_count demo_pandas (demo_env demo_service) ''key'' ''1990-01-01''
    (''Bad Series'', ''BAD'') = 0"
  by (simp add: missing_count_def coerced_def demo_service_def run_defs)

lemma demo_good_count: "missing_count demo_pandas (demo_env demo_service) ''key'' ''1990-01-01''
    (''Unemployment Rate'', ''UNRATE'') = 1"
  by (simp add: missing_count_def coerced_def demo_service_def run_defs isna_sum_def
      getitem_def)

lemma files_series_effect:
  "files (series_effect lib ev k sd (name, sid)) = Map.empty
   \<or> (\<exists>content. files (series_effect lib ev k sd (name, sid)) = [filename_of lib name \<mapsto> content])"
proof (cases rule: series_effect_cases [where ev = ev and k = k and sd = sd and name = name and sid = sid and lib = lib])
  case (fetch_failed e)
  then show ?thesis by (simp add: series_effect_fetch_failed blank_def)
next
  case (no_observations data)
  then show ?thesis by (simp add: series_effect_no_observations blank_def)
next
  case (clean_failed data records e)
  then show ?thesis by (simp add: series_effect_clean_failed blank_def)
next
  case (write_failed data records df e)
  then show ?thesis by (auto simp: series_effect_write_failed split: option.splits)
next
  case (saved data records df)
  then show ?thesis by (auto simp: series_effect_saved)
qed

lemma lower_char_ascii_lowered: "lower_char c = ascii_lowered c"
  by (cases c) (simp add: lower_char_def ascii_lowered_def char_of_def bit_Suc_0_iff)

lemma lower_ascii: "list_all is_ascii name \<Longrightarrow> lower lib name = map ascii_lowered name"
  by (simp add: lower_def lower_char_ascii_lowered)

section \<open>A console that prints every line\<close>






section \<open>The table that is written\<close>

lemma renamed_frame:
  assumes "clean lib records = Inr df"
  shows "\<exists>ds. length ds = length records
     \<and> sequence_exn (map (to_datetime_cell lib (raw_column records ''date''))
                       (raw_column records ''date'')) = Inr ds
     \<and> rename_column ''value'' sid df =
         \<lparr>nrows = length records,
          cols = map (\<lambda>k. (if k = ''value'' then sid else k, cleaned_cols lib records ds k))
                   (keys_of records)\<rparr>"
proof -
  from clean_InrD [OF assms] obtain ds where
    ds: "sequence_exn (map (to_datetime_cell lib (raw_column records ''date''))
                       (raw_column records ''date'')) = Inr ds"
    and df: "df = \<lparr>nrows = length records,
               cols = map (\<lambda>k. (k, cleaned_cols lib records ds k)) (keys_of records)\<rparr>"
    by blast
  have "length ds = length records"
    using sequence_exn_length [OF ds] by (simp add: raw_column_def)
  with ds show ?thesis
    by (simp add: df rename_column_def comp_def)
qed

lemma length_render_column_cleaned:
  "length ds = length records \<Longrightarrow>
   length (render_column lib (cleaned_cols lib records ds k)) = length records"
  by (simp add: render_column_def cleaned_cols_def raw_column_def)

lemma render_value_cell:
  "i < length records \<Longrightarrow>
   render_column lib (cleaned_cols lib records ds ''value'') ! i =
     render_cell (format_numeric lib (coerced_values lib records)) (coerced_values lib records ! i)"
  by (simp add: render_column_def cleaned_cols_def coerced_values_def raw_column_def)

lemma coerced_values_nth:
  "i < length records \<Longrightarrow>
   coerced_values lib records ! i = to_numeric_cell lib (map_of (records ! i) ''value'')"
  by (simp add: coerced_values_def raw_column_def)

lemma length_coerced_values [simp]: "length (coerced_values lib records) = length records"
  by (simp add: coerced_values_def raw_column_def)

lemma count_none_coerced:
  "count_none (coerced_values lib records) =
     length (filter (\<lambda>r. to_numeric_cell lib (map_of r ''value'') = None) records)"
  by (simp add: count_none_def coerced_values_def raw_column_def filter_map comp_def)

lemma count_none_pos: "i < length xs \<Longrightarrow> xs ! i = None \<Longrightarrow> 0 < count_none xs"
proof -
  assume "i < length xs" and "xs ! i = None"
  then have "None \<in> set (filter (\<lambda>x. x = None) xs)"
    using nth_mem [of i xs] by simp
  then show ?thesis
    unfolding count_none_def by (rule length_pos_if_in_set)
qed

text \<open>The table that is written, when cleaning succeeds.\<close>

lemma written_header:
  assumes "clean lib records = Inr df"
  shows "csv_header (rename_column ''value'' sid df) =
           map (\<lambda>k. if k = ''value'' then sid else k) (keys_of records)"
proof -
  from renamed_frame [OF assms, of sid] obtain ds where
    fr: "rename_column ''value'' sid df =
         \<lparr>nrows = length records,
          cols = map (\<lambda>k. (if k = ''value'' then sid else k, cleaned_cols lib records ds k))
                   (keys_of records)\<rparr>"
    by blast
  show ?thesis
    unfolding fr csv_header_def column_names_def by (simp add: comp_def)
qed

lemma written_rows:
  assumes "clean lib records = Inr df"
  shows "\<exists>ds. length ds = length records \<and>
     csv_rows lib (rename_column ''value'' sid df) =
       map (\<lambda>i. map (\<lambda>k. render_column lib (cleaned_cols lib records ds k) ! i) (keys_of records))
         [0..<length records]"
proof -
  from renamed_frame [OF assms, of sid] obtain ds where
    len: "length ds = length records"
    and fr: "rename_column ''value'' sid df =
         \<lparr>nrows = length records,
          cols = map (\<lambda>k. (if k = ''value'' then sid else k, cleaned_cols lib records ds k))
                   (keys_of records)\<rparr>"
    by blast
  have "csv_rows lib (rename_column ''value'' sid df) =
       map (\<lambda>i. map (\<lambda>k. render_column lib (cleaned_cols lib records ds k) ! i) (keys_of records))
         [0..<length records]"
    unfolding fr csv_rows_def by (simp add: comp_def)
  with len show ?thesis by blast
qed

lemma written_rows_length:
  assumes "clean lib records = Inr df"
  shows "length (csv_rows lib (rename_column ''value'' sid df)) = length records"
  using written_rows [OF assms, of sid] by auto

lemma written_row_length:
  assumes "clean lib records = Inr df" and "i < length records"
  shows "length (csv_rows lib (rename_column ''value'' sid df) ! i) = length (keys_of records)"
  using written_rows [OF assms(1), of sid] assms(2) by auto

lemma written_value_cell:
  assumes "clean lib records = Inr df" and "i < length records"
    and "c < length (keys_of records)" and "keys_of records ! c = ''value''"
  shows "csv_rows lib (rename_column ''value'' sid df) ! i ! c =
           render_cell (format_numeric lib (coerced_values lib records))
             (coerced_values lib records ! i)"
proof -
  from written_rows [OF assms(1), of sid] obtain ds where
    rows: "csv_rows lib (rename_column ''value'' sid df) =
       map (\<lambda>i. map (\<lambda>k. render_column lib (cleaned_cols lib records ds k) ! i) (keys_of records))
         [0..<length records]"
    by blast
  have "csv_rows lib (rename_column ''value'' sid df) ! i ! c =
          render_column lib (cleaned_cols lib records ds (keys_of records ! c)) ! i"
    unfolding rows using assms(2,3) by simp
  then show ?thesis
    unfolding assms(4) render_value_cell [OF assms(2)] .
qed

lemma value_column_index:
  assumes "clean lib records = Inr df"
  shows "\<exists>c < length (keys_of records). keys_of records ! c = ''value''"
proof -
  from clean_InrD [OF assms] have "''value'' \<in> set (keys_of records)"
    by blast
  then show ?thesis
    unfolding in_set_conv_nth .
qed

section \<open>Cleaning seen from the records\<close>

lemma key_of_every_record:
  assumes "records \<noteq> []" and "list_all (\<lambda>r. map_of r key \<noteq> None) records"
    and "key \<notin> set columns_to_drop"
  shows "key \<in> set (keys_of records)"
proof -
  obtain r rest where rs: "records = r # rest"
    using assms(1) by (cases records) auto
  with assms(2) have "map_of r key \<noteq> None" by simp
  then have "key \<in> fst ` set r"
    by (simp add: map_of_eq_None_iff)
  then have "key \<in> set (concat (map (map fst) records))"
    unfolding rs by simp
  with assms(3) show ?thesis
    by (simp add: keys_of_def set_first_seen)
qed

lemma clean_succeeds:
  assumes "''date'' \<in> set (keys_of records)" and "''value'' \<in> set (keys_of records)"
    and "sequence_exn (map (to_datetime_cell lib (raw_column records ''date''))
                          (raw_column records ''date'')) = Inr ds"
  shows "clean lib records =
           Inr \<lparr>nrows = length records,
                cols = map (\<lambda>k. (k, cleaned_cols lib records ds k)) (keys_of records)\<rparr>"
  using assms by (simp add: clean_eq)

lemma found_line_is_printed:
  assumes "fetch ev (entry_url ev k sd (name, sid)) = Inr data"
    and "data ''observations'' = Some records" and "records \<noteq> []"
    and "clean lib records = Inr df"
  shows "set (found_lines (count_none (coerced_values lib records)) sid)
           \<subseteq> set (stdout (series_effect lib ev k sd (name, sid)))"
proof (cases "open_for_write ev (filename_of lib name)")
  case None
  show ?thesis
    unfolding series_effect_saved [OF assms None] by auto
next
  case (Some e)
  show ?thesis
    unfolding series_effect_write_failed [OF assms Some] by auto
qed

lemma demo_fetch:
  "fetch (demo_env demo_service)
     (entry_url (demo_env demo_service) ''key'' ''1990-01-01'' (''Unemployment Rate'', ''UNRATE'')) =
   Inr [''observations'' \<mapsto> [[(''date'', ''2020-01-01''), (''value'', ''.'')],
                                  [(''date'', ''2020-02-01''), (''value'', ''3.5'')]]]"
  by (simp add: fetch_def demo_env_def demo_service_def ok_response_def entry_url_def
      api_url_of_def base_url_def)

lemma demo_keys:
  "keys_of [[(''date'', ''2020-01-01''), (''value'', ''.'')],
            [(''date'', ''2020-02-01''), (''value'', ''3.5'')]] = [''date'', ''value'']"
  by (simp add: keys_of_def first_seen_def columns_to_drop_def)

lemma demo_dates:
  "sequence_exn (map (to_datetime_cell demo_pandas
       (raw_column [[(''date'', ''2020-01-01''), (''value'', ''.'')],
                    [(''date'', ''2020-02-01''), (''value'', ''3.5'')]] ''date''))
     (raw_column [[(''date'', ''2020-01-01''), (''value'', ''.'')],
                  [(''date'', ''2020-02-01''), (''value'', ''3.5'')]] ''date'')) =
   Inr [Some ''2020-01-01'', Some ''2020-02-01'']"
  by (simp add: raw_column_def to_datetime_cell_def demo_pandas_def)

section \<open>The series of the test double\<close>

lemma demo_clean:
  "clean demo_pandas [[(''date'', ''2020-01-01''), (''value'', ''.'')],
                      [(''date'', ''2020-02-01''), (''value'', ''3.5'')]] =
     Inr \<lparr>nrows = 2,
          cols = [(''date'', Datetime [Some ''2020-01-01'', Some ''2020-02-01'']),
                  (''value'', Numeric [None, Some ''3.5''])]\<rparr>"
proof -
  let ?records = "[[(''date'', ''2020-01-01''), (''value'', ''.'')],
                   [(''date'', ''2020-02-01''), (''value'', ''3.5'')]]"
  have d: "''date'' \<in> set (keys_of ?records)" and v: "''value'' \<in> set (keys_of ?records)"
    unfolding demo_keys by simp_all
  show ?thesis
    unfolding clean_succeeds [OF d v demo_dates] demo_keys
    by (simp add: cleaned_cols_def raw_column_def to_numeric_def to_numeric_cell_def demo_pandas_def)
qed

lemma demo_name: "filename_of demo_pandas ''Unemployment Rate'' = ''data/unemployment_rate.csv''"
  by (simp add: path_defs)

lemma demo_writable: "open_for_write (demo_env service) path = None"
  by (simp add: demo_env_def)

lemmas csv_defs =
  to_csv_def csv_header_def csv_rows_def csv_text_def csv_line_def csv_field_def
  special_char_def render_column_def render_cell_def column_names_def rename_column_def

lemma demo_csv:
  "to_csv demo_pandas (rename_column ''value'' ''UNRATE''
     \<lparr>nrows = 2,
      cols = [(''date'', Datetime [Some ''2020-01-01'', Some ''2020-02-01'']),
              (''value'', Numeric [None, Some ''3.5''])]\<rparr>) =
   ''date,UNRATE'' @ [CHR 0x0A] @ ''2020-01-01,'' @ [CHR 0x0A] @ ''2020-02-01,3.5'' @ [CHR 0x0A]"
  by (simp add: csv_defs demo_pandas_def upt_rec numeral_2_eq_2)

section \<open>The test on the cleaned table\<close>

lemma no_valid_line_never_printed:
  "NoValidObservations x \<notin> set (stdout (series_effect lib ev k sd (name, sid)))"
proof (cases rule: series_effect_cases [where ev = ev and k = k and sd = sd and name = name
      and sid = sid and lib = lib])
  case (fetch_failed e)
  show ?thesis
    unfolding series_effect_fetch_failed [OF fetch_failed] by (simp add: error_line_def)
next
  case (no_observations data)
  show ?thesis
    unfolding series_effect_no_observations [OF no_observations] by simp
next
  case (clean_failed data records e)
  show ?thesis
    unfolding series_effect_clean_failed [OF clean_failed] by (simp add: error_line_def)
next
  case (write_failed data records df e)
  show ?thesis
    unfolding series_effect_write_failed [OF write_failed]
    by (simp add: error_line_def found_lines_def)
next
  case (saved data records df)
  show ?thesis
    unfolding series_effect_saved [OF saved] by (simp add: found_lines_def)
qed

lemma all_missing_is_written:
  assumes "fetch ev (entry_url ev k sd (name, sid)) = Inr data"
    and "data ''observations'' = Some records" and "records \<noteq> []"
    and "list_all (\<lambda>r. map_of r ''date'' \<noteq> None \<and> map_of r ''value'' \<noteq> None) records"
    and "sequence_exn (map (to_datetime_cell lib (raw_column records ''date''))
                          (raw_column records ''date'')) = Inr ds"
    and "open_for_write ev (filename_of lib name) = None"
    and "list_all (\<lambda>r. to_numeric_cell lib (map_of r ''value'') = None) records"
  shows "\<exists>df. clean lib records = Inr df
      \<and> \<not> empty_df (rename_column ''value'' sid df)
      \<and> loop_body lib ev k sd (name, sid) s =
          s\<lparr>total_nas_found := total_nas_found s + length records,
            files := (files s)(filename_of lib name \<mapsto> to_csv lib (rename_column ''value'' sid df)),
            stdout := stdout s @ [Attempting name sid, FoundNA (length records) sid,
                                  Saved (length records) (filename_of lib name)]\<rparr>
      \<and> length (csv_rows lib (rename_column ''value'' sid df)) = length records
      \<and> (\<exists>c < length (csv_header (rename_column ''value'' sid df)).
            csv_header (rename_column ''value'' sid df) ! c = sid
          \<and> list_all (\<lambda>row. row ! c = []) (csv_rows lib (rename_column ''value'' sid df)))"
proof -
  have "list_all (\<lambda>r. map_of r ''date'' \<noteq> None) records"
    and "list_all (\<lambda>r. map_of r ''value'' \<noteq> None) records"
    using assms(4) by (simp_all add: list_all_iff)
  then have d: "''date'' \<in> set (keys_of records)" and v: "''value'' \<in> set (keys_of records)"
    using assms(3) by (simp_all add: key_of_every_record columns_to_drop_def)
  define df :: "('a, 'b) frame" where
    "df = \<lparr>nrows = length records,
           cols = map (\<lambda>k. (k, cleaned_cols lib records ds k)) (keys_of records)\<rparr>"
  have cl: "clean lib records = Inr df"
    unfolding df_def by (rule clean_succeeds [OF d v assms(5)])
  have cn: "count_none (coerced_values lib records) = length records"
    unfolding count_none_coerced using assms(7) by (simp add: list_all_iff)
  have pos: "0 < length records"
    using assms(3) by simp
  have body: "loop_body lib ev k sd (name, sid) s =
          s\<lparr>total_nas_found := total_nas_found s + length records,
            files := (files s)(filename_of lib name \<mapsto> to_csv lib (rename_column ''value'' sid df)),
            stdout := stdout s @ [Attempting name sid, FoundNA (length records) sid,
                                  Saved (length records) (filename_of lib name)]\<rparr>"
    unfolding loop_body_effect [of lib ev k sd "(name, sid)" s]
      series_effect_saved [OF assms(1,2,3) cl assms(6)] cn
    using pos by (simp add: after_def found_lines_def)
  from value_column_index [OF cl] obtain c where
    c: "c < length (keys_of records)" and kc: "keys_of records ! c = ''value''"
    by blast
  have hc: "c < length (csv_header (rename_column ''value'' sid df))"
    and hv: "csv_header (rename_column ''value'' sid df) ! c = sid"
    using c kc by (simp_all add: written_header [OF cl])
  have len: "length (csv_rows lib (rename_column ''value'' sid df)) = length records"
    by (rule written_rows_length [OF cl])
  have cell: "csv_rows lib (rename_column ''value'' sid df) ! i ! c = []"
    if i: "i < length records" for i
  proof -
    have "to_numeric_cell lib (map_of (records ! i) ''value'') = None"
      using assms(7) i by (simp add: list_all_length)
    then have "coerced_values lib records ! i = None"
      using i by (simp add: coerced_values_nth)
    then show ?thesis
      unfolding written_value_cell [OF cl i c kc] by (simp add: render_cell_def)
  qed
  have blanks: "list_all (\<lambda>row. row ! c = []) (csv_rows lib (rename_column ''value'' sid df))"
    unfolding list_all_length len using cell by simp
  have ex: "\<exists>c < length (csv_header (rename_column ''value'' sid df)).
            csv_header (rename_column ''value'' sid df) ! c = sid
          \<and> list_all (\<lambda>row. row ! c = []) (csv_rows lib (rename_column ''value'' sid df))"
    by (intro exI [of _ c] conjI hc hv blanks)
  show ?thesis
    by (intro exI [of _ df] conjI cl renamed_not_empty [OF cl assms(3)] body len ex)
qed

lemma demo_all_missing_clean:
  "clean demo_pandas [[(''date'', ''2020-01-01''), (''value'', ''.'')],
                      [(''date'', ''2020-02-01''), (''value'', ''.'')]] =
     Inr \<lparr>nrows = 2,
          cols = [(''date'', Datetime [Some ''2020-01-01'', Some ''2020-02-01'']),
                  (''value'', Numeric [None, None])]\<rparr>"
  by (simp add: clean_eq keys_of_def first_seen_def columns_to_drop_def cleaned_cols_def
      raw_column_def to_datetime_cell_def to_numeric_cell_def demo_pandas_def)

lemma demo_all_missing_csv:
  "to_csv demo_pandas (rename_column ''value'' ''UNRATE''
     \<lparr>nrows = 2,
      cols = [(''date'', Datetime [Some ''2020-01-01'', Some ''2020-02-01'']),
              (''value'', Numeric [None, None])]\<rparr>) =
   ''date,UNRATE'' @ [CHR 0x0A] @ ''2020-01-01,'' @ [CHR 0x0A] @ ''2020-02-01,'' @ [CHR 0x0A]"
  by (simp add: csv_defs demo_pandas_def upt_rec numeral_2_eq_2)

lemma demo_extra_clean:
  "clean demo_pandas [[(''date'', ''2020-01-01''), (''value'', ''3.5''), (''units'', ''lin'')]] =
     Inr \<lparr>nrows = 1,
          cols = [(''date'', Datetime [Some ''2020-01-01'']),
                  (''value'', Numeric [Some ''3.5'']),
                  (''units'', Object [Some ''lin''])]\<rparr>"
  by (simp add: clean_eq keys_of_def first_seen_def columns_to_drop_def cleaned_cols_def
      raw_column_def to_datetime_cell_def to_numeric_cell_def demo_pandas_def)

lemma demo_extra_csv:
  "to_csv demo_pandas (rename_column ''value'' ''UNRATE''
     \<lparr>nrows = 1,
      cols = [(''date'', Datetime [Some ''2020-01-01'']),
              (''value'', Numeric [Some ''3.5'']),
              (''units'', Object [Some ''lin''])]\<rparr>) =
   ''date,UNRATE,units'' @ [CHR 0x0A] @ ''2020-01-01,3.5,lin'' @ [CHR 0x0A]"
  by (simp add: csv_defs demo_pandas_def)

section \<open>The claims\<close>

text \<open>
  Claim C4.  When the parsed body has no \<^verbatim>\<open>observations\<close> field, or the field is an
  empty list, the iteration prints its attempt line and the "no observations" line and
  nothing else: no file is written, the counter keeps its value, and the loop goes on
  with the next entry from that state.
\<close>

theorem no_observations_is_skipped:
  assumes "fetch ev (entry_url ev k sd (name, sid)) = Inr data"
    and "data ''observations'' = None \<or> data ''observations'' = Some []"
  shows "loop_body lib ev k sd (name, sid) s =
           s\<lparr>stdout := stdout s @ [Attempting name sid, NoObservations sid]\<rparr>
       \<and> for_loop lib ev k sd ((name, sid) # rest) s =
           for_loop lib ev k sd rest
             (s\<lparr>stdout := stdout s @ [Attempting name sid, NoObservations sid]\<rparr>)"
proof -
  have body: "loop_body lib ev k sd (name, sid) s =
           s\<lparr>stdout := stdout s @ [Attempting name sid, NoObservations sid]\<rparr>"
    using assms
    by (auto simp: loop_body_def try_block_def entry_url_def print_line_def Let_def)
  then show ?thesis by simp
qed

theorem no_observations_is_skipped_witness:
  "loop_body demo_pandas (demo_env (\<lambda>url. ok_response [])) ''key'' ''1990-01-01''
       (''Unemployment Rate'', ''UNRATE'') blank =
     blank\<lparr>stdout := [Attempting ''Unemployment Rate'' ''UNRATE'', NoObservations ''UNRATE'']\<rparr>
   \<and> files (for_loop demo_pandas (demo_env (\<lambda>url. ok_response [])) ''key'' ''1990-01-01''
       [(''Unemployment Rate'', ''UNRATE'')] blank) = Map.empty"
proof -
  let ?ev = "demo_env (\<lambda>url. ok_response [])"
  have f: "fetch ?ev (entry_url ?ev ''key'' ''1990-01-01'' (''Unemployment Rate'', ''UNRATE''))
             = Inr [''observations'' \<mapsto> []]"
    by (simp add: fetch_def demo_env_def ok_response_def)
  have e: "[''observations'' \<mapsto> ([] :: observation list)] ''observations'' = None
         \<or> [''observations'' \<mapsto> ([] :: observation list)] ''observations'' = Some []"
    by simp
  show ?thesis
    using no_observations_is_skipped [OF f e, of demo_pandas blank "[]"]
    by (simp add: blank_def)
qed

text \<open>
  Claim C8.  In the same environment (same date, same responses) a second run of an
  iteration, or of the whole function, leaves the files as the first run left them:
  the same paths get the same contents again.  What an iteration writes does not depend
  on the state it starts from.
\<close>

theorem export_is_idempotent:
  "files (loop_body lib ev k sd entry (loop_body lib ev k sd entry s)) =
     files (loop_body lib ev k sd entry s)
   \<and> files (get_fred_series_and_export_csv lib ev dict k sd
              (get_fred_series_and_export_csv lib ev dict k sd s)) =
     files (get_fred_series_and_export_csv lib ev dict k sd s)
   \<and> files (loop_body lib ev k sd entry s) = files s ++ files (series_effect lib ev k sd entry)"
  by (simp add: loop_body_effect main_effect map_add_twice)

theorem export_is_idempotent_witness:
  "files (get_fred_series_and_export_csv demo_pandas (demo_env demo_service)
        [(''Unemployment Rate'', ''UNRATE'')] ''key'' ''1990-01-01''
        (get_fred_series_and_export_csv demo_pandas (demo_env demo_service)
           [(''Unemployment Rate'', ''UNRATE'')] ''key'' ''1990-01-01'' blank)) =
   files (get_fred_series_and_export_csv demo_pandas (demo_env demo_service)
        [(''Unemployment Rate'', ''UNRATE'')] ''key'' ''1990-01-01'' blank)"
  using export_is_idempotent [of demo_pandas "demo_env demo_service" "''key''" "''1990-01-01''"
      "(''Unemployment Rate'', ''UNRATE'')" blank "[(''Unemployment Rate'', ''UNRATE'')]"]
  by simp

text \<open>
  Claim C10.  After any prefix of the dictionary the counter is its value before the
  loop plus the missing counts of the entries of the prefix; it never decreases from
  one prefix to the next; the missing count of an entry is the number of missing values
  of its coerced column when the entry reaches the coercion, and zero otherwise; the
  function's final counter is the sum over the whole dictionary.
\<close>

theorem running_total_is_sum_of_missing_counts:
  "total_nas_found (for_loop lib ev k sd (take n dict) s) =
     total_nas_found s + sum_list (map (missing_count lib ev k sd) (take n dict))
   \<and> total_nas_found (for_loop lib ev k sd (take n dict) s)
       \<le> total_nas_found (for_loop lib ev k sd (take (Suc n) dict) s)
   \<and> missing_count lib ev k sd entry =
       (case coerced lib ev k sd entry of None \<Rightarrow> 0 | Some c \<Rightarrow> isna_sum c)
   \<and> total_nas_found (get_fred_series_and_export_csv lib ev dict k sd s) =
       sum_list (map (missing_count lib ev k sd) dict)"
proof -
  have "take (Suc n) dict = take n dict @ take 1 (drop n dict)"
    by (metis One_nat_def Suc_eq_plus1 take_add)
  then have "total_nas_found (for_loop lib ev k sd (take n dict) s)
       \<le> total_nas_found (for_loop lib ev k sd (take (Suc n) dict) s)"
    by (simp add: total_for_loop_from)
  then show ?thesis
    by (simp add: total_for_loop_from missing_count_def main_effect)
qed

theorem running_total_is_sum_of_missing_counts_witness:
  "total_nas_found (for_loop demo_pandas (demo_env demo_service) ''key'' ''1990-01-01''
      (take 2 [(''Bad Series'', ''BAD''), (''Unemployment Rate'', ''UNRATE'')]) blank) = 1
   \<and> total_nas_found (for_loop demo_pandas (demo_env demo_service) ''key'' ''1990-01-01''
      (take 1 [(''Bad Series'', ''BAD''), (''Unemployment Rate'', ''UNRATE'')]) blank) = 0"
  using running_total_is_sum_of_missing_counts [of demo_pandas "demo_env demo_service"
      "''key''" "''1990-01-01''" 2 "[(''Bad Series'', ''BAD''), (''Unemployment Rate'', ''UNRATE'')]" blank]
    running_total_is_sum_of_missing_counts [of demo_pandas "demo_env demo_service"
      "''key''" "''1990-01-01''" 1 "[(''Bad Series'', ''BAD''), (''Unemployment Rate'', ''UNRATE'')]" blank]
  by (simp add: demo_bad_count demo_good_count blank_def del: for_loop.simps)

text \<open>
  Claim C6.  For the entry \<^verbatim>\<open>"Unemployment Rate": "UNRATE"\<close> and a response whose
  observations are the single record with date 2020-01-01, value 3.5 and the two
  realtime fields, in a library that reads and prints that date and that number as
  written and ends lines with a line feed, and with a writable directory, the
  iteration writes \<^verbatim>\<open>data/unemployment_rate.csv\<close> with the two lines
  \<^verbatim>\<open>date,UNRATE\<close> and \<^verbatim>\<open>2020-01-01,3.5\<close>, and the counter keeps its value.
\<close>

theorem unemployment_rate_example:
  assumes "fetch ev (entry_url ev k sd (''Unemployment Rate'', ''UNRATE'')) = Inr data"
    and "data ''observations'' =
           Some [[(''date'', ''2020-01-01''), (''value'', ''3.5''),
                  (''realtime_start'', ''x''), (''realtime_end'', ''y'')]]"
    and "parse_datetime lib [Some ''2020-01-01''] ''2020-01-01'' = Inr d"
    and "format_datetime lib [Some d] d = ''2020-01-01''"
    and "parse_numeric lib ''3.5'' = Some v"
    and "format_numeric lib [Some v] v = ''3.5''"
    and "lineterminator lib = [CHR 0x0A]"
    and "open_for_write ev ''data/unemployment_rate.csv'' = None"
  shows "loop_body lib ev k sd (''Unemployment Rate'', ''UNRATE'') s =
           s\<lparr>files := (files s)(''data/unemployment_rate.csv'' \<mapsto>
                   ''date,UNRATE'' @ [CHR 0x0A] @ ''2020-01-01,3.5'' @ [CHR 0x0A]),
              stdout := stdout s @ [Attempting ''Unemployment Rate'' ''UNRATE'',
                                    Saved 1 ''data/unemployment_rate.csv'']\<rparr>
       \<and> total_nas_found (loop_body lib ev k sd (''Unemployment Rate'', ''UNRATE'') s) =
           total_nas_found s
       \<and> total_nas_found (get_fred_series_and_export_csv lib ev
             [(''Unemployment Rate'', ''UNRATE'')] k sd s) = 0
       \<and> files (get_fred_series_and_export_csv lib ev
             [(''Unemployment Rate'', ''UNRATE'')] k sd s) =
           (files s)(''data/unemployment_rate.csv'' \<mapsto>
              ''date,UNRATE'' @ [CHR 0x0A] @ ''2020-01-01,3.5'' @ [CHR 0x0A])"
proof -
  let ?records = "[[(''date'', ''2020-01-01''), (''value'', ''3.5''),
                   (''realtime_start'', ''x''), (''realtime_end'', ''y'')]]"
  let ?df = "\<lparr>nrows = 1, cols = [(''date'', Datetime [Some d]), (''value'', Numeric [Some v])]\<rparr>
               :: ('a, 'b) frame"
  have name: "filename_of lib ''Unemployment Rate'' = ''data/unemployment_rate.csv''"
    by (simp add: path_defs)
  have cl: "clean lib ?records = Inr ?df"
    using assms(3,5)
    by (simp add: clean_eq keys_of_def raw_column_def cleaned_cols_def first_seen_def
        columns_to_drop_def to_datetime_cell_def to_numeric_cell_def)
  have cv: "coerced_values lib ?records = [Some v]"
    using assms(5) by (simp add: coerced_values_def raw_column_def to_numeric_cell_def)
  have csv: "to_csv lib (rename_column ''value'' ''UNRATE'' ?df) =
               ''date,UNRATE'' @ [CHR 0x0A] @ ''2020-01-01,3.5'' @ [CHR 0x0A]"
    using assms(4,6,7)
    by (simp add: to_csv_def rename_column_def csv_header_def csv_rows_def csv_text_def
        csv_line_def csv_field_def special_char_def render_column_def render_cell_def
        column_names_def)
  have w: "open_for_write ev (filename_of lib ''Unemployment Rate'') = None"
    using assms(8) by (simp add: name)
  have r: "?records \<noteq> []" by simp
  have body: "loop_body lib ev k sd (''Unemployment Rate'', ''UNRATE'') s =
           s\<lparr>files := (files s)(''data/unemployment_rate.csv'' \<mapsto>
                   ''date,UNRATE'' @ [CHR 0x0A] @ ''2020-01-01,3.5'' @ [CHR 0x0A]),
              stdout := stdout s @ [Attempting ''Unemployment Rate'' ''UNRATE'',
                                    Saved 1 ''data/unemployment_rate.csv'']\<rparr>"
    unfolding loop_body_saved [OF assms(1,2) r cl w] cv csv name
    by (simp add: count_none_def)
  have mc: "missing_count lib ev k sd (''Unemployment Rate'', ''UNRATE'') = 0"
    unfolding missing_count_cleaned [OF assms(1,2) r cl] cv by (simp add: count_none_def)
  have eff: "files (series_effect lib ev k sd (''Unemployment Rate'', ''UNRATE'')) =
      [''data/unemployment_rate.csv'' \<mapsto>
         ''date,UNRATE'' @ [CHR 0x0A] @ ''2020-01-01,3.5'' @ [CHR 0x0A]]"
    unfolding series_effect_saved [OF assms(1,2) r cl w] csv name by simp
  show ?thesis
    unfolding body by (simp add: main_effect mc eff [unfolded series_effect_def])
qed

theorem unemployment_rate_example_witness:
  "loop_body demo_pandas
      (demo_env (\<lambda>url. ok_response [[(''date'', ''2020-01-01''), (''value'', ''3.5''),
                                       (''realtime_start'', ''x''), (''realtime_end'', ''y'')]]))
      ''key'' ''1990-01-01'' (''Unemployment Rate'', ''UNRATE'') blank =
     blank\<lparr>files := [''data/unemployment_rate.csv'' \<mapsto>
                ''date,UNRATE'' @ [CHR 0x0A] @ ''2020-01-01,3.5'' @ [CHR 0x0A]],
           stdout := [Attempting ''Unemployment Rate'' ''UNRATE'',
                      Saved 1 ''data/unemployment_rate.csv'']\<rparr>"
proof -
  let ?records = "[[(''date'', ''2020-01-01''), (''value'', ''3.5''),
                    (''realtime_start'', ''x''), (''realtime_end'', ''y'')]]"
  let ?ev = "demo_env (\<lambda>url. ok_response ?records)"
  have f: "fetch ?ev (entry_url ?ev ''key'' ''1990-01-01'' (''Unemployment Rate'', ''UNRATE'')) =
             Inr [''observations'' \<mapsto> ?records]"
    by (simp add: fetch_def demo_env_def ok_response_def)
  have o: "[''observations'' \<mapsto> ?records] ''observations'' = Some ?records"
    by simp
  have pd: "parse_datetime demo_pandas [Some ''2020-01-01''] ''2020-01-01'' = Inr ''2020-01-01''"
    and fd: "format_datetime demo_pandas [Some ''2020-01-01''] ''2020-01-01'' = ''2020-01-01''"
    and pn: "parse_numeric demo_pandas ''3.5'' = Some ''3.5''"
    and fn: "format_numeric demo_pandas [Some ''3.5''] ''3.5'' = ''3.5''"
    and lt: "lineterminator demo_pandas = [CHR 0x0A]"
    and ow: "open_for_write ?ev ''data/unemployment_rate.csv'' = None"
    by (simp_all add: demo_pandas_def demo_env_def)
  show ?thesis
    using unemployment_rate_example [OF f o pd fd pn fn lt ow, of blank]
    by (simp add: blank_def)
qed

text \<open>
  Claim C7.  For every display name the path is \<^verbatim>\<open>data/\<close>, then the lower-cased name
  (\<^verbatim>\<open>str.lower\<close>) with every space replaced by an underscore and nothing else changed,
  then \<^verbatim>\<open>.csv\<close>.  For a name of ASCII characters this is the path in the words of the
  specification, with lower-casing written out by character codes.  It is the only path
  an iteration for that name may write.
\<close>

theorem file_path_is_normalized_name:
  "filename_of lib name = ''data/'' @ spaces_to_underscores (lower lib name) @ ''.csv''
   \<and> (list_all is_ascii name \<longrightarrow> filename_of lib name = expected_path name)
   \<and> (files (loop_body lib ev k sd (name, sid) s) = files s
      \<or> (\<exists>content. files (loop_body lib ev k sd (name, sid) s) =
            (files s)(filename_of lib name \<mapsto> content)))"
  using files_series_effect [of lib ev k sd name sid]
  by (auto simp: loop_body_effect filename_of_replace expected_path_def normalized_name_def
      lower_ascii)

theorem file_path_is_normalized_name_witness:
  "list_all is_ascii ''Unemployment Rate''
   \<and> filename_of demo_pandas ''Unemployment Rate'' = ''data/unemployment_rate.csv''
   \<and> expected_path ''S&P 500 Index'' = ''data/s&p_500_index.csv''"
proof -
  have a: "list_all is_ascii ''Unemployment Rate''"
    by (simp add: is_ascii_def)
  have e: "expected_path ''Unemployment Rate'' = ''data/unemployment_rate.csv''"
    and e': "expected_path ''S&P 500 Index'' = ''data/s&p_500_index.csv''"
    by (simp_all add: expected_path_def normalized_name_def spaces_to_underscores_def
        ascii_lowered_def char_of_def bit_Suc_0_iff)
  from file_path_is_normalized_name [of demo_pandas "''Unemployment Rate''"
      "demo_env demo_service" "''key''" "''1990-01-01''" "''UNRATE''" blank] a
  have "filename_of demo_pandas ''Unemployment Rate'' = expected_path ''Unemployment Rate''"
    by blast
  with a e e' show ?thesis by simp
qed




text \<open>
  Claim C2.  When the records have a date and a value field and the dates convert, a
  value that does not parse as a number raises nothing: cleaning succeeds, the cell of
  that observation in the value column is the missing marker, the count of the series
  is the number of observations whose cell is missing (at least one, then), the running
  total grows by that count, and the line reporting the count is printed.
\<close>

theorem unparseable_values_become_missing:
  assumes "fetch ev (entry_url ev k sd (name, sid)) = Inr data"
    and "data ''observations'' = Some records"
    and "''date'' \<in> set (keys_of records)" and "''value'' \<in> set (keys_of records)"
    and "sequence_exn (map (to_datetime_cell lib (raw_column records ''date''))
                          (raw_column records ''date'')) = Inr ds"
    and "i < length records" and "map_of (records ! i) ''value'' = Some raw"
    and "parse_numeric lib raw = None"
  shows "(\<exists>df. clean lib records = Inr df
              \<and> getitem df ''value'' = Inr (Numeric (coerced_values lib records)))
   \<and> coerced_values lib records ! i = None
   \<and> count_none (coerced_values lib records) =
       length (filter (\<lambda>r. to_numeric_cell lib (map_of r ''value'') = None) records)
   \<and> 0 < count_none (coerced_values lib records)
   \<and> missing_count lib ev k sd (name, sid) = count_none (coerced_values lib records)
   \<and> total_nas_found (loop_body lib ev k sd (name, sid) s) =
       total_nas_found s + count_none (coerced_values lib records)
   \<and> FoundNA (count_none (coerced_values lib records)) sid
       \<in> set (stdout (loop_body lib ev k sd (name, sid) s))"
proof -
  let ?df = "\<lparr>nrows = length records,
              cols = map (\<lambda>k. (k, cleaned_cols lib records ds k)) (keys_of records)\<rparr>"
  have cl: "clean lib records = Inr ?df"
    by (rule clean_succeeds [OF assms(3,4,5)])
  have ne: "records \<noteq> []"
    using assms(6) by auto
  have cell: "coerced_values lib records ! i = None"
    using assms(6,7,8) by (simp add: coerced_values_nth to_numeric_cell_def)
  have pos: "0 < count_none (coerced_values lib records)"
    by (rule count_none_pos [OF _ cell]) (simp add: assms(6))
  have mc: "missing_count lib ev k sd (name, sid) = count_none (coerced_values lib records)"
    by (rule missing_count_cleaned [OF assms(1,2) ne cl])
  have tot: "total_nas_found (loop_body lib ev k sd (name, sid) s) =
       total_nas_found s + count_none (coerced_values lib records)"
    by (simp add: loop_body_effect total_series_effect mc)
  have "FoundNA (count_none (coerced_values lib records)) sid
       \<in> set (stdout (series_effect lib ev k sd (name, sid)))"
    using found_line_is_printed [OF assms(1,2) ne cl] pos by (simp add: found_lines_def)
  then have line: "FoundNA (count_none (coerced_values lib records)) sid
       \<in> set (stdout (loop_body lib ev k sd (name, sid) s))"
    by (simp add: loop_body_effect)
  from cl clean_value_column [OF cl] cell count_none_coerced pos mc tot line
  show ?thesis by blast
qed

theorem unparseable_values_become_missing_witness:
  "coerced_values demo_pandas
      [[(''date'', ''2020-01-01''), (''value'', ''.'')],
       [(''date'', ''2020-02-01''), (''value'', ''3.5'')]] ! 0 = None
   \<and> total_nas_found (loop_body demo_pandas (demo_env demo_service) ''key'' ''1990-01-01''
        (''Unemployment Rate'', ''UNRATE'') blank) = 1
   \<and> FoundNA 1 ''UNRATE'' \<in> set (stdout (loop_body demo_pandas (demo_env demo_service) ''key''
        ''1990-01-01'' (''Unemployment Rate'', ''UNRATE'') blank))"
proof -
  let ?records = "[[(''date'', ''2020-01-01''), (''value'', ''.'')],
                   [(''date'', ''2020-02-01''), (''value'', ''3.5'')]]"
  have o: "[''observations'' \<mapsto> ?records] ''observations'' = Some ?records"
    by simp
  have d: "''date'' \<in> set (keys_of ?records)" and v: "''value'' \<in> set (keys_of ?records)"
    by (simp_all add: demo_keys)
  have i: "(0::nat) < length ?records" by simp
  have raw: "map_of (?records ! 0) ''value'' = Some ''.''" by simp
  have p: "parse_numeric demo_pandas ''.'' = None"
    by (simp add: demo_pandas_def)
  have n: "count_none (coerced_values demo_pandas ?records) = 1"
    by (simp add: count_none_def coerced_values_def raw_column_def to_numeric_cell_def
        demo_pandas_def)
  note inst = unparseable_values_become_missing [OF demo_fetch o d v demo_dates i raw p, of blank]
  note cell = inst [THEN conjunct2, THEN conjunct1]
  note tot = inst [THEN conjunct2, THEN conjunct2, THEN conjunct2, THEN conjunct2, THEN conjunct2,
      THEN conjunct1]
  note line = inst [THEN conjunct2, THEN conjunct2, THEN conjunct2, THEN conjunct2, THEN conjunct2,
      THEN conjunct2]
  have t: "total_nas_found (loop_body demo_pandas (demo_env demo_service) ''key'' ''1990-01-01''
        (''Unemployment Rate'', ''UNRATE'') blank) = 1"
    unfolding tot n by (simp add: blank_def)
  show ?thesis
    by (intro conjI cell t line [unfolded n])
qed

text \<open>
  Claim C5.  The test after cleaning is on the length of the table only.  When the
  observations hold a value the library does not parse (record \<open>i\<close>) and one it does parse
  (record \<open>j\<close>), and the path can be written, the file is written; it has one row per
  record, none is filtered out; in the column named after the series the cell of row
  \<open>i\<close> is blank and the cell of row \<open>j\<close> is the number as the library prints it.
\<close>

theorem missing_rows_are_kept_blank:
  assumes "fetch ev (entry_url ev k sd (name, sid)) = Inr data"
    and "data ''observations'' = Some records"
    and "clean lib records = Inr df"
    and "open_for_write ev (filename_of lib name) = None"
    and "i < length records" and "map_of (records ! i) ''value'' = Some raw"
    and "parse_numeric lib raw = None"
    and "j < length records" and "map_of (records ! j) ''value'' = Some raw'"
    and "parse_numeric lib raw' = Some x"
  shows "files (loop_body lib ev k sd (name, sid) s) =
           (files s)(filename_of lib name \<mapsto> to_csv lib (rename_column ''value'' sid df))
   \<and> \<not> empty_df (rename_column ''value'' sid df)
   \<and> length (csv_rows lib (rename_column ''value'' sid df)) = length records
   \<and> (\<exists>c < length (csv_header (rename_column ''value'' sid df)).
         csv_header (rename_column ''value'' sid df) ! c = sid
       \<and> csv_rows lib (rename_column ''value'' sid df) ! i ! c = []
       \<and> csv_rows lib (rename_column ''value'' sid df) ! j ! c =
           format_numeric lib (coerced_values lib records) x)"
proof -
  have ne: "records \<noteq> []"
    using assms(5) by auto
  have written: "files (loop_body lib ev k sd (name, sid) s) =
           (files s)(filename_of lib name \<mapsto> to_csv lib (rename_column ''value'' sid df))"
    unfolding loop_body_saved [OF assms(1,2) ne assms(3,4)] by simp
  have celli: "coerced_values lib records ! i = None"
    using assms(5,6,7) by (simp add: coerced_values_nth to_numeric_cell_def)
  have cellj: "coerced_values lib records ! j = Some x"
    using assms(8,9,10) by (simp add: coerced_values_nth to_numeric_cell_def)
  from value_column_index [OF assms(3)] obtain c where
    c: "c < length (keys_of records)" and kc: "keys_of records ! c = ''value''"
    by blast
  have hc: "c < length (csv_header (rename_column ''value'' sid df))"
    and hv: "csv_header (rename_column ''value'' sid df) ! c = sid"
    using c kc by (simp_all add: written_header [OF assms(3)])
  have ri: "csv_rows lib (rename_column ''value'' sid df) ! i ! c = []"
    unfolding written_value_cell [OF assms(3,5) c kc] celli by (simp add: render_cell_def)
  have rj: "csv_rows lib (rename_column ''value'' sid df) ! j ! c =
           format_numeric lib (coerced_values lib records) x"
    unfolding written_value_cell [OF assms(3,8) c kc] cellj by (simp add: render_cell_def)
  have ex: "\<exists>c < length (csv_header (rename_column ''value'' sid df)).
         csv_header (rename_column ''value'' sid df) ! c = sid
       \<and> csv_rows lib (rename_column ''value'' sid df) ! i ! c = []
       \<and> csv_rows lib (rename_column ''value'' sid df) ! j ! c =
           format_numeric lib (coerced_values lib records) x"
    by (intro exI [of _ c] conjI hc hv ri rj)
  show ?thesis
    by (intro conjI written renamed_not_empty [OF assms(3) ne] written_rows_length [OF assms(3)] ex)
qed

theorem missing_rows_are_kept_blank_witness:
  "files (loop_body demo_pandas (demo_env demo_service) ''key'' ''1990-01-01''
        (''Unemployment Rate'', ''UNRATE'') blank) =
     [''data/unemployment_rate.csv'' \<mapsto>
        ''date,UNRATE'' @ [CHR 0x0A] @ ''2020-01-01,'' @ [CHR 0x0A] @ ''2020-02-01,3.5'' @ [CHR 0x0A]]"
proof -
  let ?records = "[[(''date'', ''2020-01-01''), (''value'', ''.'')],
                   [(''date'', ''2020-02-01''), (''value'', ''3.5'')]]"
  have o: "[''observations'' \<mapsto> ?records] ''observations'' = Some ?records"
    by simp
  have w: "open_for_write (demo_env demo_service) (filename_of demo_pandas ''Unemployment Rate'') = None"
    by (rule demo_writable)
  have i: "(0::nat) < length ?records" and j: "(1::nat) < length ?records"
    by simp_all
  have ri: "map_of (?records ! 0) ''value'' = Some ''.''"
    and rj: "map_of (?records ! 1) ''value'' = Some ''3.5''"
    by simp_all
  have pi: "parse_numeric demo_pandas ''.'' = None"
    and pj: "parse_numeric demo_pandas ''3.5'' = Some ''3.5''"
    by (simp_all add: demo_pandas_def)
  note inst = missing_rows_are_kept_blank [OF demo_fetch o demo_clean w i ri pi j rj pj, of blank]
  show ?thesis
    unfolding inst [THEN conjunct1] demo_csv demo_name by (simp add: blank_def)
qed

text \<open>
  Claim C9.  The branch taken when the cleaned table is empty is never taken: no
  iteration prints its line, whatever the response.  Whenever cleaning returns a table
  for a non-empty list of records, the table has one row per record and is not empty.
  When every record has a date and a value, the dates convert, the path can be written
  and every value coerces to missing, the iteration counts every row as missing and
  writes the file, with one row per record and a blank cell in the column of the series
  on every row.
\<close>

theorem emptiness_branch_is_unreachable:
  "NoValidObservations x \<notin> set (stdout (series_effect lib ev k sd (name, sid)))
   \<and> stdout (loop_body lib ev k sd (name, sid) s) =
       stdout s @ stdout (series_effect lib ev k sd (name, sid))
   \<and> (records \<noteq> [] \<and> clean lib records = Inr cleaned \<longrightarrow>
        nrows cleaned = length records \<and> \<not> empty_df (rename_column ''value'' sid cleaned))
   \<and> (fetch ev (entry_url ev k sd (name, sid)) = Inr data
      \<and> data ''observations'' = Some records \<and> records \<noteq> []
      \<and> list_all (\<lambda>r. map_of r ''date'' \<noteq> None \<and> map_of r ''value'' \<noteq> None) records
      \<and> sequence_exn (map (to_datetime_cell lib (raw_column records ''date''))
                          (raw_column records ''date'')) = Inr ds
      \<and> open_for_write ev (filename_of lib name) = None
      \<and> list_all (\<lambda>r. to_numeric_cell lib (map_of r ''value'') = None) records
      \<longrightarrow>
      (\<exists>df. clean lib records = Inr df
        \<and> \<not> empty_df (rename_column ''value'' sid df)
        \<and> loop_body lib ev k sd (name, sid) s =
            s\<lparr>total_nas_found := total_nas_found s + length records,
              files := (files s)(filename_of lib name \<mapsto>
                         to_csv lib (rename_column ''value'' sid df)),
              stdout := stdout s @ [Attempting name sid, FoundNA (length records) sid,
                                    Saved (length records) (filename_of lib name)]\<rparr>
        \<and> length (csv_rows lib (rename_column ''value'' sid df)) = length records
        \<and> (\<exists>c < length (csv_header (rename_column ''value'' sid df)).
              csv_header (rename_column ''value'' sid df) ! c = sid
            \<and> list_all (\<lambda>row. row ! c = [])
                 (csv_rows lib (rename_column ''value'' sid df)))))"
proof (intro conjI impI)
  show "NoValidObservations x \<notin> set (stdout (series_effect lib ev k sd (name, sid)))"
    by (rule no_valid_line_never_printed)
  show "stdout (loop_body lib ev k sd (name, sid) s) =
       stdout s @ stdout (series_effect lib ev k sd (name, sid))"
    unfolding loop_body_effect [of lib ev k sd "(name, sid)" s] by simp
next
  assume a: "records \<noteq> [] \<and> clean lib records = Inr cleaned"
  show "nrows cleaned = length records"
    by (rule clean_nrows [OF a [THEN conjunct2]])
  show "\<not> empty_df (rename_column ''value'' sid cleaned)"
    by (rule renamed_not_empty [OF a [THEN conjunct2] a [THEN conjunct1]])
next
  assume "fetch ev (entry_url ev k sd (name, sid)) = Inr data
      \<and> data ''observations'' = Some records \<and> records \<noteq> []
      \<and> list_all (\<lambda>r. map_of r ''date'' \<noteq> None \<and> map_of r ''value'' \<noteq> None) records
      \<and> sequence_exn (map (to_datetime_cell lib (raw_column records ''date''))
                          (raw_column records ''date'')) = Inr ds
      \<and> open_for_write ev (filename_of lib name) = None
      \<and> list_all (\<lambda>r. to_numeric_cell lib (map_of r ''value'') = None) records"
  then show "\<exists>df. clean lib records = Inr df
        \<and> \<not> empty_df (rename_column ''value'' sid df)
        \<and> loop_body lib ev k sd (name, sid) s =
            s\<lparr>total_nas_found := total_nas_found s + length records,
              files := (files s)(filename_of lib name \<mapsto>
                         to_csv lib (rename_column ''value'' sid df)),
              stdout := stdout s @ [Attempting name sid, FoundNA (length records) sid,
                                    Saved (length records) (filename_of lib name)]\<rparr>
        \<and> length (csv_rows lib (rename_column ''value'' sid df)) = length records
        \<and> (\<exists>c < length (csv_header (rename_column ''value'' sid df)).
              csv_header (rename_column ''value'' sid df) ! c = sid
            \<and> list_all (\<lambda>row. row ! c = [])
                 (csv_rows lib (rename_column ''value'' sid df)))"
    by (elim conjE) (rule all_missing_is_written)
qed

theorem emptiness_branch_is_unreachable_witness:
  "loop_body demo_pandas
      (demo_env (\<lambda>url. ok_response [[(''date'', ''2020-01-01''), (''value'', ''.'')],
                                     [(''date'', ''2020-02-01''), (''value'', ''.'')]]))
      ''key'' ''1990-01-01'' (''Unemployment Rate'', ''UNRATE'') blank =
     \<lparr>total_nas_found = 2,
      files = [''data/unemployment_rate.csv'' \<mapsto>
        ''date,UNRATE'' @ [CHR 0x0A] @ ''2020-01-01,'' @ [CHR 0x0A] @ ''2020-02-01,'' @ [CHR 0x0A]],
      stdout = [Attempting ''Unemployment Rate'' ''UNRATE'', FoundNA 2 ''UNRATE'',
                Saved 2 ''data/unemployment_rate.csv'']\<rparr>"
proof -
  let ?records = "[[(''date'', ''2020-01-01''), (''value'', ''.'')],
                   [(''date'', ''2020-02-01''), (''value'', ''.'')]]"
  let ?ev = "demo_env (\<lambda>url. ok_response ?records)"
  have f: "fetch ?ev (entry_url ?ev ''key'' ''1990-01-01'' (''Unemployment Rate'', ''UNRATE''))
             = Inr [''observations'' \<mapsto> ?records]"
    by (simp add: fetch_def demo_env_def ok_response_def)
  have o: "[''observations'' \<mapsto> ?records] ''observations'' = Some ?records"
    by simp
  have ne: "?records \<noteq> []"
    by simp
  have keys: "list_all (\<lambda>r. map_of r ''date'' \<noteq> None \<and> map_of r ''value'' \<noteq> None) ?records"
    by simp
  have dates: "sequence_exn (map (to_datetime_cell demo_pandas (raw_column ?records ''date''))
                 (raw_column ?records ''date'')) = Inr [Some ''2020-01-01'', Some ''2020-02-01'']"
    by (simp add: raw_column_def to_datetime_cell_def demo_pandas_def)
  have w: "open_for_write ?ev (filename_of demo_pandas ''Unemployment Rate'') = None"
    by (rule demo_writable)
  have missing: "list_all (\<lambda>r. to_numeric_cell demo_pandas (map_of r ''value'') = None) ?records"
    by (simp add: to_numeric_cell_def demo_pandas_def)
  note inst = emptiness_branch_is_unreachable [where lib = demo_pandas and ev = "?ev"
      and k = "''key''" and sd = "''1990-01-01''" and name = "''Unemployment Rate''"
      and sid = "''UNRATE''" and s = blank and records = "?records"
      and data = "[''observations'' \<mapsto> ?records]"
      and ds = "[Some ''2020-01-01'', Some ''2020-02-01'']"]
  have "\<exists>df. clean demo_pandas ?records = Inr df
        \<and> \<not> empty_df (rename_column ''value'' ''UNRATE'' df)
        \<and> loop_body demo_pandas ?ev ''key'' ''1990-01-01'' (''Unemployment Rate'', ''UNRATE'') blank =
            blank\<lparr>total_nas_found := total_nas_found blank + length ?records,
              files := (files blank)(filename_of demo_pandas ''Unemployment Rate'' \<mapsto>
                         to_csv demo_pandas (rename_column ''value'' ''UNRATE'' df)),
              stdout := stdout blank @ [Attempting ''Unemployment Rate'' ''UNRATE'',
                                    FoundNA (length ?records) ''UNRATE'',
                                    Saved (length ?records)
                                      (filename_of demo_pandas ''Unemployment Rate'')]\<rparr>
        \<and> length (csv_rows demo_pandas (rename_column ''value'' ''UNRATE'' df)) = length ?records
        \<and> (\<exists>c < length (csv_header (rename_column ''value'' ''UNRATE'' df)).
              csv_header (rename_column ''value'' ''UNRATE'' df) ! c = ''UNRATE''
            \<and> list_all (\<lambda>row. row ! c = [])
                 (csv_rows demo_pandas (rename_column ''value'' ''UNRATE'' df)))"
    by (rule inst [THEN conjunct2, THEN conjunct2, THEN conjunct2, THEN mp])
       (intro conjI f o ne keys dates w missing)
  then obtain df where cl: "clean demo_pandas ?records = Inr df"
    and body: "loop_body demo_pandas ?ev ''key'' ''1990-01-01'' (''Unemployment Rate'', ''UNRATE'') blank =
            blank\<lparr>total_nas_found := total_nas_found blank + length ?records,
              files := (files blank)(filename_of demo_pandas ''Unemployment Rate'' \<mapsto>
                         to_csv demo_pandas (rename_column ''value'' ''UNRATE'' df)),
              stdout := stdout blank @ [Attempting ''Unemployment Rate'' ''UNRATE'',
                                    FoundNA (length ?records) ''UNRATE'',
                                    Saved (length ?records)
                                      (filename_of demo_pandas ''Unemployment Rate'')]\<rparr>"
    by (elim exE conjE)
  have df: "df = \<lparr>nrows = 2,
          cols = [(''date'', Datetime [Some ''2020-01-01'', Some ''2020-02-01'']),
                  (''value'', Numeric [None, None])]\<rparr>"
    using cl unfolding demo_all_missing_clean by simp
  show ?thesis
    unfolding body df demo_all_missing_csv demo_name by (simp add: blank_def)
qed

text \<open>
  Claim C1.  When the request, the parsing and the cleaning succeed for a non-empty
  list of records, the path can be written, and the fields of the records other than
  \<^verbatim>\<open>realtime_start\<close> and \<^verbatim>\<open>realtime_end\<close> are \<^verbatim>\<open>date\<close> and \<^verbatim>\<open>value\<close>, in this order
  of first appearance, the file is the header \<^verbatim>\<open>date,<series_id>\<close> followed by one
  row of two cells per record; the drop of the two metadata columns succeeds whether
  they are in the response or not, and leaves the date and the value column.  The
  condition on the fields is needed: any other field of a record is a column of the
  file, as the evaluation after the theorem shows.
\<close>

theorem columns_are_date_and_series_id:
  fixes lib :: "('d, 'n) pandas"
  assumes "fetch ev (entry_url ev k sd (name, sid)) = Inr data"
    and "data ''observations'' = Some records" and "records \<noteq> []"
    and "clean lib records = Inr df"
    and "open_for_write ev (filename_of lib name) = None"
    and "keys_of records = [''date'', ''value'']"
  shows "files (loop_body lib ev k sd (name, sid) s) =
           (files s)(filename_of lib name \<mapsto>
              csv_text (quote_line_breaks lib) (lineterminator lib) [''date'', sid]
                (csv_rows lib (rename_column ''value'' sid df)))
   \<and> csv_header (rename_column ''value'' sid df) = [''date'', sid]
   \<and> length (csv_rows lib (rename_column ''value'' sid df)) = length records
   \<and> list_all (\<lambda>row. length row = 2) (csv_rows lib (rename_column ''value'' sid df))
   \<and> drop_columns
        (filter (\<lambda>col. col \<in> set (column_names (DataFrame records :: ('d, 'n) frame)))
           columns_to_drop)
        (DataFrame records :: ('d, 'n) frame) =
       Inr \<lparr>nrows = length records,
            cols = [(''date'', Object (raw_column records ''date'')),
                    (''value'', Object (raw_column records ''value''))]\<rparr>"
proof -
  have header: "csv_header (rename_column ''value'' sid df) = [''date'', sid]"
    unfolding written_header [OF assms(4)] assms(6) by simp
  have written: "files (loop_body lib ev k sd (name, sid) s) =
           (files s)(filename_of lib name \<mapsto>
              csv_text (quote_line_breaks lib) (lineterminator lib) [''date'', sid]
                (csv_rows lib (rename_column ''value'' sid df)))"
    unfolding loop_body_saved [OF assms(1,2,3,4,5)] by (simp add: to_csv_def header)
  have len: "length (csv_rows lib (rename_column ''value'' sid df)) = length records"
    by (rule written_rows_length [OF assms(4)])
  have width: "list_all (\<lambda>row. length row = 2) (csv_rows lib (rename_column ''value'' sid df))"
    unfolding list_all_length len
    by (simp add: written_row_length [OF assms(4)] assms(6))
  have dropped: "drop_columns
        (filter (\<lambda>col. col \<in> set (column_names (DataFrame records :: ('d, 'n) frame)))
           columns_to_drop)
        (DataFrame records :: ('d, 'n) frame) =
       Inr \<lparr>nrows = length records,
            cols = [(''date'', Object (raw_column records ''date'')),
                    (''value'', Object (raw_column records ''value''))]\<rparr>"
    unfolding dropped_frame assms(6) by simp
  show ?thesis
    by (intro conjI written header len width dropped)
qed

theorem columns_are_date_and_series_id_witness:
  "files (loop_body demo_pandas (demo_env demo_service) ''key'' ''1990-01-01''
        (''Unemployment Rate'', ''UNRATE'') blank) ''data/unemployment_rate.csv'' =
     Some (csv_text False [CHR 0x0A] [''date'', ''UNRATE'']
             [[''2020-01-01'', ''''], [''2020-02-01'', ''3.5'']])"
proof -
  let ?records = "[[(''date'', ''2020-01-01''), (''value'', ''.'')],
                   [(''date'', ''2020-02-01''), (''value'', ''3.5'')]]"
  have o: "[''observations'' \<mapsto> ?records] ''observations'' = Some ?records"
    by simp
  have ne: "?records \<noteq> []"
    by simp
  have w: "open_for_write (demo_env demo_service) (filename_of demo_pandas ''Unemployment Rate'') = None"
    by (rule demo_writable)
  note inst = columns_are_date_and_series_id [OF demo_fetch o ne demo_clean w demo_keys, of blank]
  have rows: "csv_rows demo_pandas (rename_column ''value'' ''UNRATE''
     \<lparr>nrows = 2,
      cols = [(''date'', Datetime [Some ''2020-01-01'', Some ''2020-02-01'']),
              (''value'', Numeric [None, Some ''3.5''])]\<rparr>) =
       [[''2020-01-01'', ''''], [''2020-02-01'', ''3.5'']]"
    by (simp add: csv_defs demo_pandas_def upt_rec numeral_2_eq_2)
  show ?thesis
    unfolding inst [THEN conjunct1] rows demo_name by (simp add: demo_pandas_def)
qed

theorem extra_field_becomes_a_column:
  "loop_body demo_pandas
      (demo_env (\<lambda>url. ok_response
         [[(''date'', ''2020-01-01''), (''value'', ''3.5''), (''units'', ''lin'')]]))
      ''key'' ''1990-01-01'' (''Unemployment Rate'', ''UNRATE'') blank =
     \<lparr>total_nas_found = 0,
      files = [''data/unemployment_rate.csv'' \<mapsto>
        ''date,UNRATE,units'' @ [CHR 0x0A] @ ''2020-01-01,3.5,lin'' @ [CHR 0x0A]],
      stdout = [Attempting ''Unemployment Rate'' ''UNRATE'',
                Saved 1 ''data/unemployment_rate.csv'']\<rparr>"
proof -
  let ?records = "[[(''date'', ''2020-01-01''), (''value'', ''3.5''), (''units'', ''lin'')]]"
  let ?ev = "demo_env (\<lambda>url. ok_response ?records)"
  have f: "fetch ?ev (entry_url ?ev ''key'' ''1990-01-01'' (''Unemployment Rate'', ''UNRATE''))
             = Inr [''observations'' \<mapsto> ?records]"
    by (simp add: fetch_def demo_env_def ok_response_def)
  have o: "[''observations'' \<mapsto> ?records] ''observations'' = Some ?records"
    by simp
  have ne: "?records \<noteq> []"
    by simp
  have w: "open_for_write ?ev (filename_of demo_pandas ''Unemployment Rate'') = None"
    by (rule demo_writable)
  have cn: "count_none (coerced_values demo_pandas ?records) = 0"
    by (simp add: count_none_def coerced_values_def raw_column_def to_numeric_cell_def
        demo_pandas_def)
  show ?thesis
    unfolding loop_body_saved [OF f o ne demo_extra_clean w] cn demo_extra_csv demo_name
    by (simp add: blank_def)
qed

end
